theory Spec2Isabelle
  imports Complex_Main "HOL-Library.Log_Nat" "HOL-Library.Word"
begin

section \<open>Data model of the monitoring service\<close>

text \<open>
  The event handlers of \<^verbatim>\<open>monitoring_service/handlers.py\<close> are embedded as functions on an
  explicit context. Addresses are opaque values that the handlers only compare for
  equality; block numbers, nonces, channel identifiers and token amounts are Python
  integers.
\<close>

type_synonym Address = nat
type_synonym BlockNumber = int
type_synonym ChannelID = int
type_synonym bytes = "8 word list"

datatype error = AssertionError | OverflowError

datatype ChannelState = OPENED | CLOSED | SETTLED

record OnChainUpdateStatus =
  update_sender_address :: Address
  nonce :: int

record Channel =
  token_network_address :: Address
  identifier' :: ChannelID
  participant1 :: Address
  participant2 :: Address
  settle_timeout :: int
  state :: ChannelState
  closing_block :: "BlockNumber option"
  closing_participant :: "Address option"
  closing_tx_hash :: "bytes option"
  claim_tx_hash :: "bytes option"
  update_status :: "OnChainUpdateStatus option"

text \<open>
  Modelled from the spec: the class \<^verbatim>\<open>Channel\<close> (its field defaults and the property
  \<^verbatim>\<open>participants\<close>) lives in \<^verbatim>\<open>monitoring_service/states.py\<close>. A channel is created in
  state \<open>OPENED\<close> with every optional attribute absent, and \<^verbatim>\<open>participants\<close> is the ordered
  participant pair.
\<close>

definition new_Channel :: "Address \<Rightarrow> ChannelID \<Rightarrow> Address \<Rightarrow> Address \<Rightarrow> int \<Rightarrow> Channel" where
  "new_Channel tn cid p1 p2 st =
     \<lparr>token_network_address = tn, identifier' = cid, participant1 = p1, participant2 = p2,
      settle_timeout = st, state = OPENED, closing_block = None, closing_participant = None,
      closing_tx_hash = None, claim_tx_hash = None, update_status = None\<rparr>"

definition participants :: "Channel \<Rightarrow> Address list" where
  "participants channel = [participant1 channel, participant2 channel]"

text \<open>
  Modelled from the spec: \<^verbatim>\<open>MonitorRequest\<close> (also of \<^verbatim>\<open>states.py\<close>). The two signer
  addresses are recovered from the signatures when the request is built; here they are
  fields.
\<close>

record MonitorRequest =
  mr_channel_identifier :: ChannelID
  mr_token_network_address :: Address
  balance_hash :: bytes
  mr_nonce :: int
  additional_hash :: bytes
  closing_signature :: bytes
  non_closing_signature :: bytes
  reward_amount :: int
  reward_proof_signature :: bytes
  signer :: Address
  non_closing_signer :: Address

text \<open>
  The events of \<^verbatim>\<open>raiden_libs/events.py\<close> and \<^verbatim>\<open>monitoring_service/events.py\<close>, with the
  fields the handlers read, in the order of section 4.2 of the specification:
  \<^item> \<open>ReceiveChannelOpenedEvent tn cid participant1 participant2 settle_timeout block\<close>
  \<^item> \<open>ReceiveChannelClosedEvent tn cid closing_participant block\<close>
  \<^item> \<open>ReceiveNonClosingBalanceProofUpdatedEvent tn cid closing_participant nonce block\<close>
  \<^item> \<open>ReceiveChannelSettledEvent tn cid block\<close>
  \<^item> \<open>ReceiveMonitoringNewBalanceProofEvent tn cid reward_amount nonce ms_address
       raiden_node_address block\<close>
  \<^item> \<open>ReceiveMonitoringRewardClaimedEvent ms_address amount reward_identifier block\<close>
  \<^item> \<open>UpdatedHeadBlockEvent head_block_number\<close>
  \<^item> \<open>ActionMonitoringTriggeredEvent tn cid non_closing_participant\<close>
  \<^item> \<open>ActionClaimRewardTriggeredEvent tn cid non_closing_participant\<close>
\<close>

datatype Event =
    ReceiveChannelOpenedEvent Address ChannelID Address Address int BlockNumber
  | ReceiveChannelClosedEvent Address ChannelID Address BlockNumber
  | ReceiveNonClosingBalanceProofUpdatedEvent Address ChannelID Address int BlockNumber
  | ReceiveChannelSettledEvent Address ChannelID BlockNumber
  | ReceiveMonitoringNewBalanceProofEvent Address ChannelID int int Address Address BlockNumber
  | ReceiveMonitoringRewardClaimedEvent Address int bytes BlockNumber
  | UpdatedHeadBlockEvent BlockNumber
  | ActionMonitoringTriggeredEvent Address ChannelID Address
  | ActionClaimRewardTriggeredEvent Address ChannelID Address

record ScheduledEvent =
  trigger_block_number :: BlockNumber
  event :: Event

record BlockchainState =
  latest_known_block :: BlockNumber
  latest_committed_block :: BlockNumber
  chain_id :: int
  token_network_registry_address :: Address
  monitor_contract_address :: Address

record MonitoringServiceState =
  blockchain_state :: BlockchainState
  address :: Address

subsection \<open>The persistence store\<close>

text \<open>
  Modelled from the spec: the class \<^verbatim>\<open>Database\<close> of \<^verbatim>\<open>monitoring_service/database.py\<close>
  (section 4.1). Each table is a list of rows. A channel is found by its identity
  \<open>(token_network_address, identifier)\<close>, a monitor request by
  \<open>(token_network_address, channel_identifier, non_closing_signer)\<close>; \<open>upsert_channel\<close>
  inserts or replaces by identity; \<open>upsert_scheduled_event\<close> is idempotent on the full
  tuple and keeps insertion order; \<open>update_state\<close> persists the blockchain state. Store
  operations do not fail.
\<close>

record Database =
  channels :: "Channel list"
  monitor_requests :: "MonitorRequest list"
  scheduled_events :: "ScheduledEvent list"
  waiting_transactions :: "string list"
  stored_blockchain_state :: BlockchainState

definition is_channel :: "Address \<Rightarrow> ChannelID \<Rightarrow> Channel \<Rightarrow> bool" where
  "is_channel tn cid c \<longleftrightarrow> token_network_address c = tn \<and> identifier' c = cid"

definition get_channel :: "Database \<Rightarrow> Address \<Rightarrow> ChannelID \<Rightarrow> Channel option" where
  "get_channel d tn cid = find (is_channel tn cid) (channels d)"

definition upsert_channel :: "Channel \<Rightarrow> Database \<Rightarrow> Database" where
  "upsert_channel c d =
     d\<lparr>channels :=
         c # filter (\<lambda>c'. \<not> is_channel (token_network_address c) (identifier' c) c') (channels d)\<rparr>"

definition get_monitor_request ::
  "Database \<Rightarrow> Address \<Rightarrow> ChannelID \<Rightarrow> Address \<Rightarrow> MonitorRequest option" where
  "get_monitor_request d tn cid ncs =
     find (\<lambda>mr. mr_token_network_address mr = tn \<and> mr_channel_identifier mr = cid \<and>
                 non_closing_signer mr = ncs) (monitor_requests d)"

definition upsert_scheduled_event :: "ScheduledEvent \<Rightarrow> Database \<Rightarrow> Database" where
  "upsert_scheduled_event se d =
     (if se \<in> set (scheduled_events d) then d
      else d\<lparr>scheduled_events := scheduled_events d @ [se]\<rparr>)"

definition add_waiting_transaction :: "string \<Rightarrow> Database \<Rightarrow> Database" where
  "add_waiting_transaction h d = d\<lparr>waiting_transactions := waiting_transactions d @ [h]\<rparr>"

definition update_state :: "MonitoringServiceState \<Rightarrow> Database \<Rightarrow> Database" where
  "update_state ms d = d\<lparr>stored_blockchain_state := blockchain_state ms\<rparr>"

definition empty_Database :: "BlockchainState \<Rightarrow> Database" where
  "empty_Database bs =
     \<lparr>channels = [], monitor_requests = [], scheduled_events = [],
      waiting_transactions = [], stored_blockchain_state = bs\<rparr>"

subsection \<open>The handler context and its collaborators\<close>

text \<open>
  The two transactions the service sends, with the arguments the handlers pass.
\<close>

datatype ContractCall =
    monitor Address Address bytes int bytes bytes bytes int Address bytes
  | claimReward ChannelID Address Address Address

datatype LogLevel = INFO | WARNING | ERROR

text \<open>
  \<open>Context\<close> has the fields of the dataclass that the handlers use (\<^verbatim>\<open>w3\<close> and
  \<^verbatim>\<open>contract_manager\<close> are never read). The two contracts are represented by what the chain
  answers: \<open>monitoring_service_contract call sender\<close> is the result of
  \<^verbatim>\<open>functions.<call>.transact({'from': sender})\<close>, \<open>None\<close> when the call raises, and
  \<open>user_deposit_contract a\<close> is the result of \<^verbatim>\<open>functions.effectiveBalance(a).call()\<close>.
  Two more fields record the handlers' effects on the collaborators: the transactions
  handed to the chain, in order, each with its sender, and the lines logged (level and
  message; the keyword arguments of a log call are not recorded).
\<close>

record Context =
  ms_state :: MonitoringServiceState
  db :: Database
  last_known_block :: int
  monitoring_service_contract :: "ContractCall \<Rightarrow> Address \<Rightarrow> bytes option"
  user_deposit_contract :: "Address \<Rightarrow> int"
  min_reward :: int
  transactions :: "(ContractCall \<times> Address) list"
  log_output :: "(LogLevel \<times> string) list"

definition log_line :: "LogLevel \<Rightarrow> string \<Rightarrow> Context \<Rightarrow> Context" where
  "log_line lvl msg context = context\<lparr>log_output := log_output context @ [(lvl, msg)]\<rparr>"

text \<open>
  A handler either returns or raises; in both cases the context is the one reached at
  that point, since the changes made before an exception are not undone by the handler.
\<close>

datatype outcome = Returned Context | Raised error Context

fun final_context :: "outcome \<Rightarrow> Context" where
  "final_context (Returned context) = context"
| "final_context (Raised e context) = context"

fun raised :: "outcome \<Rightarrow> error option" where
  "raised (Returned context) = None"
| "raised (Raised e context) = Some e"

fun and_then :: "outcome \<Rightarrow> (Context \<Rightarrow> outcome) \<Rightarrow> outcome" where
  "and_then (Returned context) f = f context"
| "and_then (Raised e context) f = Raised e context"

subsection \<open>Constants\<close>

text \<open>
  Modelled from the spec: \<^verbatim>\<open>monitoring_service/constants.py\<close> is not part of the sources;
  the risk factor is \<open>2\<close> and the monitor-window ratio is the Python float \<open>0.8\<close>
  (section 4.3 and 4.6).
\<close>

definition DEFAULT_PAYMENT_RISK_FAKTOR :: int where
  "DEFAULT_PAYMENT_RISK_FAKTOR = 2"

subsection \<open>Python floats\<close>

text \<open>
  \<^verbatim>\<open>round(channel.settle_timeout * RATIO_OF_SETTLE_TIMEOUT_BEFORE_MONITOR)\<close> multiplies an
  integer by a float. A finite binary64 value is a pair \<open>(m, e)\<close> standing for
  \<open>m * 2 ^ e\<close>; \<open>None\<close> stands for an infinity. \<open>round_half_even_div a b\<close> is the integer
  nearest to \<open>a / b\<close>, ties to the even one. \<open>to_binary64 m e\<close> rounds \<open>m * 2 ^ e\<close> to the
  nearest binary64 value (53 significant bits, least exponent \<open>-1074\<close>, ties to even).
\<close>

type_synonym binary64 = "int \<times> int"

definition round_half_even_div :: "int \<Rightarrow> int \<Rightarrow> int" where
  "round_half_even_div a b =
     (let q = a div b; r = a mod b
      in if 2 * r < b then q else if b < 2 * r then q + 1 else if even q then q else q + 1)"

definition to_binary64 :: "int \<Rightarrow> int \<Rightarrow> binary64 option" where
  "to_binary64 m e =
     (let s = max (bitlen \<bar>m\<bar> - 53) (- 1074 - e);
          m' = (if s \<le> 0 then m else round_half_even_div m (2 ^ nat s));
          e' = (if s \<le> 0 then e else e + s)
      in if 1024 < bitlen \<bar>m'\<bar> + e' then None else Some (m', e'))"

definition RATIO_OF_SETTLE_TIMEOUT_BEFORE_MONITOR :: binary64 where
  "RATIO_OF_SETTLE_TIMEOUT_BEFORE_MONITOR = (3602879701896397, - 52)"

text \<open>
  \<open>py_int_mul_float n x\<close> is Python's \<^verbatim>\<open>n * x\<close> for an integer \<open>n\<close> and a finite float \<open>x\<close>:
  the integer is converted to a float, which raises \<^verbatim>\<open>OverflowError\<close> when it is too
  large, and the exact product is rounded. \<open>py_round\<close> is \<^verbatim>\<open>round(x)\<close> with one argument:
  the nearest integer, ties to even, \<^verbatim>\<open>OverflowError\<close> on an infinity.
\<close>

definition py_int_mul_float :: "int \<Rightarrow> binary64 \<Rightarrow> error + binary64 option" where
  "py_int_mul_float n x =
     (case to_binary64 n 0 of
        None \<Rightarrow> Inl OverflowError
      | Some (m, e) \<Rightarrow> Inr (to_binary64 (m * fst x) (e + snd x)))"

definition py_round :: "binary64 option \<Rightarrow> error + int" where
  "py_round x =
     (case x of
        None \<Rightarrow> Inl OverflowError
      | Some (m, e) \<Rightarrow>
          if 0 \<le> e then Inr (m * 2 ^ nat e) else Inr (round_half_even_div m (2 ^ nat (- e))))"

text \<open>An exception raised by a subexpression is raised by the whole expression.\<close>

fun propagate :: "error + 'a \<Rightarrow> ('a \<Rightarrow> error + 'b) \<Rightarrow> error + 'b" where
  "propagate (Inl e) f = Inl e"
| "propagate (Inr x) f = f x"

text \<open>
  The value of the local variable \<^verbatim>\<open>client_update_period\<close> of
  \<^verbatim>\<open>channel_closed_event_handler\<close>:
  \<^verbatim>\<open>round(channel.settle_timeout * RATIO_OF_SETTLE_TIMEOUT_BEFORE_MONITOR)\<close>.
\<close>

definition round_ratio_of_settle_timeout :: "int \<Rightarrow> error + int" where
  "round_ratio_of_settle_timeout settle_timeout_blocks =
     propagate (py_int_mul_float settle_timeout_blocks RATIO_OF_SETTLE_TIMEOUT_BEFORE_MONITOR)
       py_round"

text \<open>
  \<^verbatim>\<open>encode_hex\<close> of \<^verbatim>\<open>eth_utils\<close>: the bytes in lower-case hexadecimal after \<^verbatim>\<open>0x\<close>.
\<close>

definition hex_digit :: "nat \<Rightarrow> char" where
  "hex_digit n = ''0123456789abcdef'' ! (n mod 16)"

definition encode_hex :: "bytes \<Rightarrow> string" where
  "encode_hex bs = ''0x'' @ concat (map (\<lambda>b. [hex_digit (unat b div 16), hex_digit (unat b)]) bs)"

section \<open>The event handlers\<close>

text \<open>
  Each handler starts with \<^verbatim>\<open>assert isinstance(event, ...)\<close>: on an event of another class
  it raises \<^verbatim>\<open>AssertionError\<close> (the last equation of each function).
\<close>

fun channel_opened_event_handler :: "Event \<Rightarrow> Context \<Rightarrow> outcome" where
  "channel_opened_event_handler (ReceiveChannelOpenedEvent tn cid p1 p2 st bn) context =
     (let context = log_line INFO ''Received new channel'' context
      in Returned (context\<lparr>db := upsert_channel (new_Channel tn cid p1 p2 st) (db context)\<rparr>))"
| "channel_opened_event_handler _ context = Raised AssertionError context"

fun channel_closed_event_handler :: "Event \<Rightarrow> Context \<Rightarrow> outcome" where
  "channel_closed_event_handler (ReceiveChannelClosedEvent tn cid closing bn) context =
     (case get_channel (db context) tn cid of
        None \<Rightarrow> Returned (log_line ERROR ''Channel not in database'' context)
      | Some channel \<Rightarrow>
          (let settle_period_end_block = bn + settle_timeout channel;
               settle_period_over = settle_period_end_block < last_known_block context
           in and_then
                (if \<not> settle_period_over then
                   (let non_closing_participant =
                          (if participant1 channel = closing then participant2 channel
                           else participant1 channel)
                    in case round_ratio_of_settle_timeout (settle_timeout channel) of
                         Inl e \<Rightarrow> Raised e context
                       | Inr client_update_period \<Rightarrow>
                           (let trigger_block = bn + client_update_period;
                                triggered_event =
                                  ActionMonitoringTriggeredEvent (token_network_address channel)
                                    (identifier' channel) non_closing_participant;
                                context =
                                  log_line INFO ''Channel closed, triggering monitoring check''
                                    context
                            in Returned
                                 (context\<lparr>db :=
                                    upsert_scheduled_event
                                      \<lparr>trigger_block_number = trigger_block,
                                       event = triggered_event\<rparr>
                                      (db context)\<rparr>)))
                 else
                   Returned
                     (log_line WARNING ''Settle period timeout is in the past, skipping''
                        context))
                (\<lambda>context.
                   Returned
                     (context\<lparr>db :=
                        upsert_channel
                          (channel\<lparr>state := CLOSED, closing_block := Some bn,
                                   closing_participant := Some closing\<rparr>)
                          (db context)\<rparr>))))"
| "channel_closed_event_handler _ context = Raised AssertionError context"

fun non_closing_balance_proof_updated_event_handler :: "Event \<Rightarrow> Context \<Rightarrow> outcome" where
  "non_closing_balance_proof_updated_event_handler
     (ReceiveNonClosingBalanceProofUpdatedEvent tn cid closing event_nonce bn) context =
     (case get_channel (db context) tn cid of
        None \<Rightarrow> Returned (log_line ERROR ''Channel not in database'' context)
      | Some channel \<Rightarrow>
          (let context = log_line INFO ''Received update event for channel'' context
           in case (if closing = participant1 channel then Some (participant2 channel)
                    else if closing = participant2 channel then Some (participant1 channel)
                    else None) of
                None \<Rightarrow>
                  Returned
                    (log_line ERROR ''Update event contains invalid closing participant''
                       context)
              | Some non_closing_participant \<Rightarrow>
                  (case update_status channel of
                     None \<Rightarrow>
                       (let context = log_line INFO ''Creating channel update state'' context;
                            channel =
                              channel\<lparr>update_status :=
                                Some \<lparr>update_sender_address = non_closing_participant,
                                      nonce = event_nonce\<rparr>\<rparr>
                        in Returned (context\<lparr>db := upsert_channel channel (db context)\<rparr>))
                   | Some status \<Rightarrow>
                       if event_nonce \<le> nonce status then
                         Returned
                           (log_line ERROR
                              ''updateNonClosingBalanceProof nonce smaller than the known one, ignoring.''
                              context)
                       else
                         (let context = log_line INFO ''Updating channel update state'' context;
                              channel =
                                channel\<lparr>update_status :=
                                  Some (status\<lparr>nonce := event_nonce,
                                     update_sender_address := non_closing_participant\<rparr>)\<rparr>
                          in Returned (context\<lparr>db := upsert_channel channel (db context)\<rparr>)))))"
| "non_closing_balance_proof_updated_event_handler _ context = Raised AssertionError context"

fun channel_settled_event_handler :: "Event \<Rightarrow> Context \<Rightarrow> outcome" where
  "channel_settled_event_handler (ReceiveChannelSettledEvent tn cid bn) context =
     (case get_channel (db context) tn cid of
        None \<Rightarrow> Returned (log_line ERROR ''Channel not in database'' context)
      | Some channel \<Rightarrow>
          (let context = log_line INFO ''Received settle event for channel'' context
           in Returned
                (context\<lparr>db := upsert_channel (channel\<lparr>state := SETTLED\<rparr>) (db context)\<rparr>)))"
| "channel_settled_event_handler _ context = Raised AssertionError context"

text \<open>
  In the next handler the first part either returns early (\<open>Inl\<close>, the stale nonce) or
  goes on to the scheduling of \<^verbatim>\<open>claimReward\<close> with the updated channel (\<open>Inr\<close>).
\<close>

fun monitor_new_balance_proof_event_handler :: "Event \<Rightarrow> Context \<Rightarrow> outcome" where
  "monitor_new_balance_proof_event_handler
     (ReceiveMonitoringNewBalanceProofEvent tn cid reward event_nonce ms_address
        raiden_node_address bn) context =
     (case get_channel (db context) tn cid of
        None \<Rightarrow> Returned (log_line ERROR ''Channel not in database'' context)
      | Some channel \<Rightarrow>
          (let context = log_line INFO ''Received MSC NewBalanceProof event'' context
           in case (case update_status channel of
                      None \<Rightarrow>
                        (let context = log_line INFO ''Creating channel update state'' context;
                             channel =
                               channel\<lparr>update_status :=
                                 Some \<lparr>update_sender_address = ms_address,
                                       nonce = event_nonce\<rparr>\<rparr>
                         in Inr (channel, context\<lparr>db := upsert_channel channel (db context)\<rparr>))
                    | Some status \<Rightarrow>
                        if event_nonce < nonce status then
                          Inl (log_line ERROR
                                 ''MSC NewBalanceProof nonce smaller than the known one, ignoring.''
                                 context)
                        else
                          (let context = log_line INFO ''Updating channel update state'' context;
                               channel =
                                 channel\<lparr>update_status :=
                                   Some (status\<lparr>nonce := event_nonce,
                                      update_sender_address := ms_address\<rparr>)\<rparr>
                           in Inr (channel,
                                   context\<lparr>db := upsert_channel channel (db context)\<rparr>))) of
                Inl context \<Rightarrow> Returned context
              | Inr (channel, context) \<Rightarrow>
                  if ms_address = address (ms_state context) then
                    (case closing_block channel of
                       None \<Rightarrow> Raised AssertionError context
                     | Some closing_block_number \<Rightarrow>
                         (let trigger_block =
                                closing_block_number + settle_timeout channel + 5;
                              e = ActionClaimRewardTriggeredEvent (token_network_address channel)
                                    (identifier' channel) raiden_node_address
                          in Returned
                               (context\<lparr>db :=
                                  upsert_scheduled_event
                                    \<lparr>trigger_block_number = trigger_block, event = e\<rparr>
                                    (db context)\<rparr>)))
                  else Returned context))"
| "monitor_new_balance_proof_event_handler _ context = Raised AssertionError context"

fun monitor_reward_claim_event_handler :: "Event \<Rightarrow> Context \<Rightarrow> outcome" where
  "monitor_reward_claim_event_handler (ReceiveMonitoringRewardClaimedEvent ms amount rid bn)
     context = Returned (log_line INFO ''Received MSC RewardClaimed event'' context)"
| "monitor_reward_claim_event_handler _ context = Raised AssertionError context"

fun updated_head_block_event_handler :: "Event \<Rightarrow> Context \<Rightarrow> outcome" where
  "updated_head_block_event_handler (UpdatedHeadBlockEvent head_block_number) context =
     (let ms = ms_state context;
          ms = ms\<lparr>blockchain_state :=
                 (blockchain_state ms)\<lparr>latest_known_block := head_block_number\<rparr>\<rparr>;
          context = context\<lparr>ms_state := ms\<rparr>
      in Returned (context\<lparr>db := update_state (ms_state context) (db context)\<rparr>))"
| "updated_head_block_event_handler _ context = Raised AssertionError context"

text \<open>
  \<^verbatim>\<open>_is_mr_valid\<close> logs the reason when it rejects a request, so it returns the context
  with its answer.
\<close>

definition is_mr_valid :: "MonitorRequest \<Rightarrow> Channel \<Rightarrow> Context \<Rightarrow> bool \<times> Context" where
  "is_mr_valid monitor_request channel context =
     (if signer monitor_request \<notin> set (participants channel) \<or>
         non_closing_signer monitor_request \<notin> set (participants channel)
      then (False, log_line INFO ''MR signed by unknown party'' context)
      else if signer monitor_request = non_closing_signer monitor_request
      then (False, log_line INFO ''MR signed by closing party'' context)
      else (True, context))"

text \<open>
  In the two action handlers the transaction is sent inside \<^verbatim>\<open>try\<close>: when \<^verbatim>\<open>transact\<close>
  raises, the \<^verbatim>\<open>except\<close> branch logs and the handler returns.
\<close>

fun action_monitoring_triggered_event_handler :: "Event \<Rightarrow> Context \<Rightarrow> outcome" where
  "action_monitoring_triggered_event_handler (ActionMonitoringTriggeredEvent tn cid ncp) context =
     (let context = log_line INFO ''Triggering channel monitoring'' context
      in case get_monitor_request (db context) tn cid ncp of
           None \<Rightarrow> Returned context
         | Some monitor_request \<Rightarrow>
             (case get_channel (db context) (mr_token_network_address monitor_request)
                     (mr_channel_identifier monitor_request) of
                None \<Rightarrow> Returned context
              | Some channel \<Rightarrow>
                  (case is_mr_valid monitor_request channel context of
                     (valid, context) \<Rightarrow>
                       if \<not> valid then Returned context
                       else
                         (let last_onchain_nonce =
                                (case update_status channel of
                                   None \<Rightarrow> 0
                                 | Some status \<Rightarrow> nonce status);
                              user_address = non_closing_signer monitor_request;
                              user_deposit = user_deposit_contract context user_address;
                              context =
                                (if reward_amount monitor_request < min_reward context then
                                   log_line INFO
                                     ''Monitor request not executed due to insufficient reward amount''
                                     context
                                 else context);
                              call_monitor =
                                (closing_tx_hash channel = None
                                 \<and> mr_nonce monitor_request > last_onchain_nonce
                                 \<and> user_deposit \<ge>
                                     reward_amount monitor_request * DEFAULT_PAYMENT_RISK_FAKTOR
                                 \<and> reward_amount monitor_request \<ge> min_reward context)
                          in if call_monitor then
                               (let call =
                                      monitor (signer monitor_request)
                                        (non_closing_signer monitor_request)
                                        (balance_hash monitor_request)
                                        (mr_nonce monitor_request)
                                        (additional_hash monitor_request)
                                        (closing_signature monitor_request)
                                        (non_closing_signature monitor_request)
                                        (reward_amount monitor_request)
                                        (mr_token_network_address monitor_request)
                                        (reward_proof_signature monitor_request);
                                    sender = address (ms_state context);
                                    context =
                                      context\<lparr>transactions :=
                                        transactions context @ [(call, sender)]\<rparr>
                                in case monitoring_service_contract context call sender of
                                     None \<Rightarrow>
                                       Returned (log_line ERROR ''Sending tx failed'' context)
                                   | Some tx_hash \<Rightarrow>
                                       (let context =
                                              log_line INFO
                                                ''Sent transaction calling `monitor` for channel''
                                                context;
                                            context =
                                              context\<lparr>db :=
                                                add_waiting_transaction (encode_hex tx_hash)
                                                  (db context)\<rparr>;
                                            channel = channel\<lparr>closing_tx_hash := Some tx_hash\<rparr>
                                        in Returned
                                             (context\<lparr>db :=
                                                upsert_channel channel (db context)\<rparr>)))
                             else Returned context))))"
| "action_monitoring_triggered_event_handler _ context = Raised AssertionError context"

fun action_claim_reward_triggered_event_handler :: "Event \<Rightarrow> Context \<Rightarrow> outcome" where
  "action_claim_reward_triggered_event_handler (ActionClaimRewardTriggeredEvent tn cid ncp)
     context =
     (let context = log_line INFO ''Triggering reward claim'' context
      in case get_monitor_request (db context) tn cid ncp of
           None \<Rightarrow> Returned context
         | Some monitor_request \<Rightarrow>
             (case get_channel (db context) (mr_token_network_address monitor_request)
                     (mr_channel_identifier monitor_request) of
                None \<Rightarrow> Returned context
              | Some channel \<Rightarrow>
                  (let can_claim =
                         (claim_tx_hash channel = None
                          \<and> (case update_status channel of
                                None \<Rightarrow> False
                              | Some status \<Rightarrow>
                                  update_sender_address status = address (ms_state context)));
                       context = log_line INFO ''Checking if eligible for reward'' context;
                       has_reward = (reward_amount monitor_request > 0);
                       context =
                         (if \<not> has_reward then
                            log_line WARNING
                              ''MonitorRequest has no reward. Skipping reward claim.'' context
                          else context)
                   in if can_claim \<and> has_reward then
                        (let call =
                               claimReward (mr_channel_identifier monitor_request)
                                 (mr_token_network_address monitor_request)
                                 (signer monitor_request)
                                 (non_closing_signer monitor_request);
                             sender = address (ms_state context);
                             context =
                               context\<lparr>transactions := transactions context @ [(call, sender)]\<rparr>
                         in case monitoring_service_contract context call sender of
                              None \<Rightarrow> Returned (log_line ERROR ''Sending tx failed'' context)
                            | Some tx_hash \<Rightarrow>
                                (let context =
                                       log_line INFO
                                         ''Sent transaction calling `claimReward` for channel''
                                         context;
                                     context =
                                       context\<lparr>db :=
                                         add_waiting_transaction (encode_hex tx_hash)
                                           (db context)\<rparr>;
                                     channel = channel\<lparr>claim_tx_hash := Some tx_hash\<rparr>
                                 in Returned
                                      (context\<lparr>db := upsert_channel channel (db context)\<rparr>)))
                      else Returned context)))"
| "action_claim_reward_triggered_event_handler _ context = Raised AssertionError context"

text \<open>The table \<^verbatim>\<open>HANDLERS\<close>: the handler of an event is chosen by the event's class.\<close>

fun HANDLERS :: "Event \<Rightarrow> Event \<Rightarrow> Context \<Rightarrow> outcome" where
  "HANDLERS (ReceiveChannelOpenedEvent _ _ _ _ _ _) = channel_opened_event_handler"
| "HANDLERS (ReceiveChannelClosedEvent _ _ _ _) = channel_closed_event_handler"
| "HANDLERS (ReceiveNonClosingBalanceProofUpdatedEvent _ _ _ _ _) =
     non_closing_balance_proof_updated_event_handler"
| "HANDLERS (ReceiveChannelSettledEvent _ _ _) = channel_settled_event_handler"
| "HANDLERS (ReceiveMonitoringNewBalanceProofEvent _ _ _ _ _ _ _) =
     monitor_new_balance_proof_event_handler"
| "HANDLERS (ReceiveMonitoringRewardClaimedEvent _ _ _ _) = monitor_reward_claim_event_handler"
| "HANDLERS (UpdatedHeadBlockEvent _) = updated_head_block_event_handler"
| "HANDLERS (ActionMonitoringTriggeredEvent _ _ _) = action_monitoring_triggered_event_handler"
| "HANDLERS (ActionClaimRewardTriggeredEvent _ _ _) =
     action_claim_reward_triggered_event_handler"

definition handle_event :: "Event \<Rightarrow> Context \<Rightarrow> outcome" where
  "handle_event e context = HANDLERS e e context"

text \<open>
  Modelled from the spec: the event loop (section 4.7, \<^verbatim>\<open>service.py\<close>) hands the events to
  their handlers one after the other, in order; an exception of a handler ends the
  processing.
\<close>

fun process_events :: "Event list \<Rightarrow> Context \<Rightarrow> outcome" where
  "process_events [] context = Returned context"
| "process_events (e # es) context = and_then (handle_event e context) (process_events es)"

section \<open>The conditions of the specification\<close>

text \<open>
  The gate of the \<open>MONITOR\<close> action as section 4.6 of the specification words it, to be
  compared with what the handler computes.
\<close>

definition monitor_gate :: "Context \<Rightarrow> Address \<Rightarrow> ChannelID \<Rightarrow> Address \<Rightarrow> bool" where
  "monitor_gate context tn cid np =
     (case get_monitor_request (db context) tn cid np of
        None \<Rightarrow> False
      | Some mr \<Rightarrow>
          (case get_channel (db context) (mr_token_network_address mr)
                  (mr_channel_identifier mr) of
             None \<Rightarrow> False
           | Some channel \<Rightarrow>
               signer mr \<in> {participant1 channel, participant2 channel}
               \<and> non_closing_signer mr \<in> {participant1 channel, participant2 channel}
               \<and> signer mr \<noteq> non_closing_signer mr
               \<and> closing_tx_hash channel = None
               \<and> mr_nonce mr > (case update_status channel of None \<Rightarrow> 0 | Some s \<Rightarrow> nonce s)
               \<and> user_deposit_contract context (non_closing_signer mr) \<ge> reward_amount mr * 2
               \<and> reward_amount mr \<ge> min_reward context))"

section \<open>Example data\<close>

text \<open>
  The first scenario of the specification: participants \<open>10\<close> and \<open>11\<close> have a channel with
  settle timeout \<open>20\<close>; participant \<open>11\<close> has stored a monitor request with nonce \<open>5\<close> and
  reward \<open>10\<close>; the service's address is \<open>99\<close> and \<open>min_reward\<close> is \<open>1\<close>. The context is
  built from the stored channel, the user deposit and the chain's answer to a transaction.
\<close>

definition example_channel :: Channel where
  "example_channel = new_Channel 6 7 10 11 20"

definition example_request :: MonitorRequest where
  "example_request =
     \<lparr>mr_channel_identifier = 7, mr_token_network_address = 6, balance_hash = [1],
      mr_nonce = 5, additional_hash = [2], closing_signature = [3],
      non_closing_signature = [4], reward_amount = 10, reward_proof_signature = [5],
      signer = 10, non_closing_signer = 11\<rparr>"

definition example_blockchain_state :: BlockchainState where
  "example_blockchain_state =
     \<lparr>latest_known_block = 100, latest_committed_block = 100, chain_id = 1,
      token_network_registry_address = 2, monitor_contract_address = 3\<rparr>"

definition example_context :: "Channel \<Rightarrow> int \<Rightarrow> bytes option \<Rightarrow> Context" where
  "example_context channel deposit answer =
     \<lparr>ms_state = \<lparr>blockchain_state = example_blockchain_state, address = 99\<rparr>,
      db = (empty_Database example_blockchain_state)
             \<lparr>channels := [channel], monitor_requests := [example_request]\<rparr>,
      last_known_block = 100,
      monitoring_service_contract = (\<lambda>call sender. answer),
      user_deposit_contract = (\<lambda>a. deposit),
      min_reward = 1, transactions = [], log_output = []\<rparr>"

text \<open>
  The eligibility of the \<open>CLAIM_REWARD\<close> action as section 4.6 of the specification words
  it, for a stored request and channel.
\<close>

definition claim_gate :: "Context \<Rightarrow> Address \<Rightarrow> ChannelID \<Rightarrow> Address \<Rightarrow> bool" where
  "claim_gate context tn cid np =
     (case get_monitor_request (db context) tn cid np of
        None \<Rightarrow> False
      | Some mr \<Rightarrow>
          (case get_channel (db context) (mr_token_network_address mr)
                  (mr_channel_identifier mr) of
             None \<Rightarrow> False
           | Some channel \<Rightarrow>
               claim_tx_hash channel = None
               \<and> (case update_status channel of
                     None \<Rightarrow> False
                   | Some s \<Rightarrow> update_sender_address s = address (ms_state context))
               \<and> reward_amount mr > 0))"

text \<open>
  The example channel after it was closed in block \<open>150\<close> by participant \<open>10\<close> and the
  service's own update with nonce \<open>5\<close> was seen on chain; and the same channel once the
  reward claim was sent.
\<close>

definition example_closed_channel :: Channel where
  "example_closed_channel =
     example_channel\<lparr>state := CLOSED, closing_block := Some 150,
       closing_participant := Some 10,
       update_status := Some \<lparr>update_sender_address = 99, nonce = 5\<rparr>\<rparr>"

definition example_claimed_channel :: Channel where
  "example_claimed_channel = example_closed_channel\<lparr>claim_tx_hash := Some [0xcd]\<rparr>"

text \<open>
  The closed example channel after the non-closing participant \<open>11\<close> itself updated the
  balance proof with nonce \<open>5\<close>; and a channel holding such an update although its closing
  was never seen.
\<close>

definition example_updated_channel :: Channel where
  "example_updated_channel =
     example_closed_channel
       \<lparr>update_status := Some \<lparr>update_sender_address = 11, nonce = 5\<rparr>\<rparr>"

definition example_unclosed_channel :: Channel where
  "example_unclosed_channel =
     example_channel\<lparr>update_status := Some \<lparr>update_sender_address = 11, nonce = 5\<rparr>\<rparr>"

section \<open>Conditions on events and on sequences of events\<close>

text \<open>
  The events for which claim C10 expects the failed assertion, with the nonce check taken
  into account: a \<open>MonitorNewBalanceProof\<close> event that carries the service's own address,
  whose channel is stored without a closing block, and that the nonce check lets pass.
\<close>

fun missing_closing_block :: "Event \<Rightarrow> Context \<Rightarrow> bool" where
  "missing_closing_block
     (ReceiveMonitoringNewBalanceProofEvent tn cid reward n ms node bn) context =
     (ms = address (ms_state context)
      \<and> (case get_channel (db context) tn cid of
            None \<Rightarrow> False
          | Some channel \<Rightarrow>
              closing_block channel = None
              \<and> (case update_status channel of None \<Rightarrow> True | Some s \<Rightarrow> nonce s \<le> n)))"
| "missing_closing_block _ context = False"

text \<open>
  The block number claim C9 speaks of, \<open>latest_known_block\<close> of the persisted blockchain
  state; and the condition on a sequence of events that its head block numbers never go
  down, starting from block \<open>b\<close>.
\<close>

definition persisted_latest_known_block :: "Context \<Rightarrow> BlockNumber" where
  "persisted_latest_known_block context =
     latest_known_block (stored_blockchain_state (db context))"

fun heads_ascending :: "BlockNumber \<Rightarrow> Event list \<Rightarrow> bool" where
  "heads_ascending b [] = True"
| "heads_ascending b (UpdatedHeadBlockEvent h # es) = (b \<le> h \<and> heads_ascending h es)"
| "heads_ascending b (e # es) = heads_ascending b es"

text \<open>
  For claim C3: the nonce stored for a channel (\<open>None\<close> when the channel is not stored or
  has no update status), what it means that a stored nonce has not decreased (a nonce that
  is there stays there and does not get smaller), and the events that open the channel
  \<open>(tn, cid)\<close>.
\<close>

definition stored_nonce :: "Database \<Rightarrow> Address \<Rightarrow> ChannelID \<Rightarrow> int option" where
  "stored_nonce d tn cid =
     (case get_channel d tn cid of
        None \<Rightarrow> None
      | Some channel \<Rightarrow> map_option nonce (update_status channel))"

fun not_decreased :: "int option \<Rightarrow> int option \<Rightarrow> bool" where
  "not_decreased None new = True"
| "not_decreased (Some a) None = False"
| "not_decreased (Some a) (Some b) = (a \<le> b)"

fun opens :: "Address \<Rightarrow> ChannelID \<Rightarrow> Event \<Rightarrow> bool" where
  "opens tn cid (ReceiveChannelOpenedEvent tn' cid' p1 p2 st bn) = (tn' = tn \<and> cid' = cid)"
| "opens tn cid e = False"

text \<open>
  For claim C8: the invariant I2 of a channel; the condition that an event is not a
  \<open>ChannelSettled\<close> event for a channel stored in state \<open>OPENED\<close>; and the same for every
  event of a sequence at the time it is processed.
\<close>

definition closing_block_consistent :: "Channel \<Rightarrow> bool" where
  "closing_block_consistent channel \<longleftrightarrow>
     (closing_block channel \<noteq> None \<longleftrightarrow> state channel \<in> {CLOSED, SETTLED})"

fun settle_follows_close :: "Event \<Rightarrow> Context \<Rightarrow> bool" where
  "settle_follows_close (ReceiveChannelSettledEvent tn cid bn) context =
     (case get_channel (db context) tn cid of
        None \<Rightarrow> True
      | Some channel \<Rightarrow> state channel \<noteq> OPENED)"
| "settle_follows_close e context = True"

fun settles_follow_closes :: "Event list \<Rightarrow> Context \<Rightarrow> bool" where
  "settles_follow_closes [] context = True"
| "settles_follow_closes (e # es) context =
     (settle_follows_close e context
      \<and> (case handle_event e context of
            Returned context' \<Rightarrow> settles_follow_closes es context'
          | Raised err context' \<Rightarrow> True))"

text \<open>The initial state of the examples: nothing is stored yet.\<close>

definition example_initial_context :: Context where
  "example_initial_context =
     (example_context example_channel 30 (Some [0xab]))
       \<lparr>db := empty_Database example_blockchain_state\<rparr>"

section \<open>The action executor\<close>

lemma log_line_fields [simp]:
  "db (log_line l m context) = db context"
  "ms_state (log_line l m context) = ms_state context"
  "last_known_block (log_line l m context) = last_known_block context"
  "monitoring_service_contract (log_line l m context) = monitoring_service_contract context"
  "user_deposit_contract (log_line l m context) = user_deposit_contract context"
  "min_reward (log_line l m context) = min_reward context"
  "transactions (log_line l m context) = transactions context"
  "log_output (log_line l m context) = log_output context @ [(l, m)]"
  by (simp_all add: log_line_def)

lemma fst_is_mr_valid:
  "fst (is_mr_valid mr c context) \<longleftrightarrow>
     signer mr \<in> {participant1 c, participant2 c} \<and>
     non_closing_signer mr \<in> {participant1 c, participant2 c} \<and>
     signer mr \<noteq> non_closing_signer mr"
  by (auto simp: is_mr_valid_def participants_def)

lemma snd_is_mr_valid [simp]:
  "db (snd (is_mr_valid mr c context)) = db context"
  "transactions (snd (is_mr_valid mr c context)) = transactions context"
  "ms_state (snd (is_mr_valid mr c context)) = ms_state context"
  "min_reward (snd (is_mr_valid mr c context)) = min_reward context"
  "user_deposit_contract (snd (is_mr_valid mr c context)) = user_deposit_contract context"
  "monitoring_service_contract (snd (is_mr_valid mr c context)) =
     monitoring_service_contract context"
  by (simp_all add: is_mr_valid_def)

lemma monitoring_no_request:
  "get_monitor_request (db context) tn cid np = None \<Longrightarrow>
   action_monitoring_triggered_event_handler (ActionMonitoringTriggeredEvent tn cid np) context =
     Returned (log_line INFO ''Triggering channel monitoring'' context)"
  by (simp add: Let_def)

lemma monitoring_no_channel:
  "get_monitor_request (db context) tn cid np = Some mr \<Longrightarrow>
   get_channel (db context) (mr_token_network_address mr) (mr_channel_identifier mr) = None \<Longrightarrow>
   action_monitoring_triggered_event_handler (ActionMonitoringTriggeredEvent tn cid np) context =
     Returned (log_line INFO ''Triggering channel monitoring'' context)"
  by (simp add: Let_def)

lemma monitoring_transactions:
  assumes "get_monitor_request (db context) tn cid np = Some mr"
    and "get_channel (db context) (mr_token_network_address mr) (mr_channel_identifier mr) =
      Some c"
  shows "transactions (final_context
      (action_monitoring_triggered_event_handler (ActionMonitoringTriggeredEvent tn cid np)
         context)) =
    (if fst (is_mr_valid mr c context)
        \<and> closing_tx_hash c = None
        \<and> mr_nonce mr > (case update_status c of None \<Rightarrow> 0 | Some s \<Rightarrow> nonce s)
        \<and> user_deposit_contract context (non_closing_signer mr) \<ge> reward_amount mr * 2
        \<and> reward_amount mr \<ge> min_reward context
     then transactions context @
            [(monitor (signer mr) (non_closing_signer mr) (balance_hash mr) (mr_nonce mr)
                (additional_hash mr) (closing_signature mr) (non_closing_signature mr)
                (reward_amount mr) (mr_token_network_address mr)
                (reward_proof_signature mr),
              address (ms_state context))]
     else transactions context)"
  using assms
  by (simp add: Let_def case_prod_beta DEFAULT_PAYMENT_RISK_FAKTOR_def is_mr_valid_def
      split: option.split)

declare action_monitoring_triggered_event_handler.simps [simp del]

text \<open>
  Claim C1. When a \<open>MONITOR\<close> action fires, a transaction is handed to the chain if and only
  if the gate holds: the monitor request and its channel are stored, the request is valid
  for the channel's participant pair, no closing transaction was sent yet, the request's
  nonce is greater than the last nonce seen on chain (\<open>0\<close> without an update status), the
  user deposit is at least twice the reward, and the reward is at least \<open>min_reward\<close>. The
  transaction is then the \<open>monitor\<close> call built from the request, sent from the service's
  address. In particular nothing is sent when the deposit is below reward times risk
  factor.
\<close>

theorem monitor_submitted_iff_gate:
  "(transactions (final_context
        (action_monitoring_triggered_event_handler (ActionMonitoringTriggeredEvent tn cid np)
           context)) \<noteq> transactions context
      \<longleftrightarrow> monitor_gate context tn cid np)
   \<and> (\<forall>mr. get_monitor_request (db context) tn cid np = Some mr \<longrightarrow>
          transactions (final_context
            (action_monitoring_triggered_event_handler (ActionMonitoringTriggeredEvent tn cid np)
               context)) =
          (if monitor_gate context tn cid np then
             transactions context @
               [(monitor (signer mr) (non_closing_signer mr) (balance_hash mr) (mr_nonce mr)
                   (additional_hash mr) (closing_signature mr) (non_closing_signature mr)
                   (reward_amount mr) (mr_token_network_address mr)
                   (reward_proof_signature mr),
                 address (ms_state context))]
           else transactions context))
   \<and> (\<forall>mr. get_monitor_request (db context) tn cid np = Some mr \<longrightarrow>
          user_deposit_contract context (non_closing_signer mr)
            < reward_amount mr * DEFAULT_PAYMENT_RISK_FAKTOR \<longrightarrow>
          transactions (final_context
            (action_monitoring_triggered_event_handler (ActionMonitoringTriggeredEvent tn cid np)
               context)) = transactions context)"
proof (cases "get_monitor_request (db context) tn cid np")
  case None
  then show ?thesis
    by (simp add: monitoring_no_request monitor_gate_def)
next
  case (Some mr)
  show ?thesis
  proof (cases "get_channel (db context) (mr_token_network_address mr)
      (mr_channel_identifier mr)")
    case None
    with Some show ?thesis
      by (simp add: monitoring_no_channel monitor_gate_def)
  next
    case c: (Some c)
    have gate: "monitor_gate context tn cid np \<longleftrightarrow>
        fst (is_mr_valid mr c context)
        \<and> closing_tx_hash c = None
        \<and> mr_nonce mr > (case update_status c of None \<Rightarrow> 0 | Some s \<Rightarrow> nonce s)
        \<and> user_deposit_contract context (non_closing_signer mr) \<ge> reward_amount mr * 2
        \<and> reward_amount mr \<ge> min_reward context"
      by (simp add: monitor_gate_def Some c fst_is_mr_valid)
    have tx: "transactions (final_context
        (action_monitoring_triggered_event_handler (ActionMonitoringTriggeredEvent tn cid np)
           context)) =
      (if monitor_gate context tn cid np then
         transactions context @
           [(monitor (signer mr) (non_closing_signer mr) (balance_hash mr) (mr_nonce mr)
               (additional_hash mr) (closing_signature mr) (non_closing_signature mr)
               (reward_amount mr) (mr_token_network_address mr)
               (reward_proof_signature mr),
             address (ms_state context))]
       else transactions context)"
      unfolding gate by (rule monitoring_transactions [OF Some c])
    have low: "user_deposit_contract context (non_closing_signer mr)
        < reward_amount mr * DEFAULT_PAYMENT_RISK_FAKTOR \<Longrightarrow> \<not> monitor_gate context tn cid np"
      by (simp add: gate DEFAULT_PAYMENT_RISK_FAKTOR_def)
    show ?thesis
      using low by (simp add: Some tx)
  qed
qed

theorem monitor_submitted_iff_gate_witness:
  "monitor_gate (example_context example_channel 30 (Some [0xab])) 6 7 11
   \<and> transactions (final_context
        (action_monitoring_triggered_event_handler (ActionMonitoringTriggeredEvent 6 7 11)
           (example_context example_channel 30 (Some [0xab])))) =
       [(monitor 10 11 [1] 5 [2] [3] [4] 10 6 [5], 99)]
   \<and> \<not> monitor_gate (example_context example_channel 15 (Some [0xab])) 6 7 11
   \<and> transactions (final_context
        (action_monitoring_triggered_event_handler (ActionMonitoringTriggeredEvent 6 7 11)
           (example_context example_channel 15 (Some [0xab])))) = []"
proof -
  have mr: "get_monitor_request (db (example_context example_channel d a)) 6 7 11 =
      Some example_request" for d a
    by (simp add: example_context_def get_monitor_request_def example_request_def)
  have g: "monitor_gate (example_context example_channel 30 (Some [0xab])) 6 7 11"
    by code_simp
  have ng: "\<not> monitor_gate (example_context example_channel 15 (Some [0xab])) 6 7 11"
    by code_simp
  have t: "transactions (example_context example_channel d a) = []"
    "address (ms_state (example_context example_channel d a)) = 99" for d a
    by (simp_all add: example_context_def)
  have a: "transactions (final_context
        (action_monitoring_triggered_event_handler (ActionMonitoringTriggeredEvent 6 7 11)
           (example_context example_channel 30 (Some [0xab])))) =
       [(monitor 10 11 [1] 5 [2] [3] [4] 10 6 [5], 99)]"
    using monitor_submitted_iff_gate [of 6 7 11 "example_context example_channel 30 (Some [0xab])"]
      g
    by (simp add: mr t) (simp add: example_request_def)
  have b: "transactions (final_context
        (action_monitoring_triggered_event_handler (ActionMonitoringTriggeredEvent 6 7 11)
           (example_context example_channel 15 (Some [0xab])))) = []"
    using monitor_submitted_iff_gate [of 6 7 11 "example_context example_channel 15 (Some [0xab])"]
      ng
    by (simp add: mr t)
  show ?thesis
    using a b g ng by simp
qed

lemma claim_no_request:
  "get_monitor_request (db context) tn cid np = None \<Longrightarrow>
   action_claim_reward_triggered_event_handler (ActionClaimRewardTriggeredEvent tn cid np)
     context = Returned (log_line INFO ''Triggering reward claim'' context)"
  by (simp add: Let_def)

lemma claim_no_channel:
  "get_monitor_request (db context) tn cid np = Some mr \<Longrightarrow>
   get_channel (db context) (mr_token_network_address mr) (mr_channel_identifier mr) = None \<Longrightarrow>
   action_claim_reward_triggered_event_handler (ActionClaimRewardTriggeredEvent tn cid np)
     context = Returned (log_line INFO ''Triggering reward claim'' context)"
  by (simp add: Let_def)

lemma claim_transactions:
  assumes "get_monitor_request (db context) tn cid np = Some mr"
    and "get_channel (db context) (mr_token_network_address mr) (mr_channel_identifier mr) =
      Some c"
  shows "transactions (final_context
      (action_claim_reward_triggered_event_handler (ActionClaimRewardTriggeredEvent tn cid np)
         context)) =
    (if claim_tx_hash c = None
        \<and> (case update_status c of
              None \<Rightarrow> False
            | Some s \<Rightarrow> update_sender_address s = address (ms_state context))
        \<and> reward_amount mr > 0
     then transactions context @
            [(claimReward (mr_channel_identifier mr) (mr_token_network_address mr) (signer mr)
                (non_closing_signer mr),
              address (ms_state context))]
     else transactions context)"
  using assms by (simp add: Let_def split: option.split)

lemma claim_failed:
  assumes "get_monitor_request (db context) tn cid np = Some mr"
    and "get_channel (db context) (mr_token_network_address mr) (mr_channel_identifier mr) =
      Some c"
    and "\<And>call. monitoring_service_contract context call (address (ms_state context)) = None"
  shows "raised (action_claim_reward_triggered_event_handler
             (ActionClaimRewardTriggeredEvent tn cid np) context) = None"
    and "db (final_context (action_claim_reward_triggered_event_handler
             (ActionClaimRewardTriggeredEvent tn cid np) context)) = db context"
    and "transactions (final_context (action_claim_reward_triggered_event_handler
             (ActionClaimRewardTriggeredEvent tn cid np) context)) = transactions context \<or>
         last (log_output (final_context (action_claim_reward_triggered_event_handler
             (ActionClaimRewardTriggeredEvent tn cid np) context))) =
         (ERROR, ''Sending tx failed'')"
  using assms by (simp_all add: Let_def split: option.split)

lemma monitoring_failed:
  assumes "get_monitor_request (db context) tn cid np = Some mr"
    and "get_channel (db context) (mr_token_network_address mr) (mr_channel_identifier mr) =
      Some c"
    and "\<And>call. monitoring_service_contract context call (address (ms_state context)) = None"
  shows "raised (action_monitoring_triggered_event_handler
             (ActionMonitoringTriggeredEvent tn cid np) context) = None"
    and "db (final_context (action_monitoring_triggered_event_handler
             (ActionMonitoringTriggeredEvent tn cid np) context)) = db context"
    and "transactions (final_context (action_monitoring_triggered_event_handler
             (ActionMonitoringTriggeredEvent tn cid np) context)) = transactions context \<or>
         last (log_output (final_context (action_monitoring_triggered_event_handler
             (ActionMonitoringTriggeredEvent tn cid np) context))) =
         (ERROR, ''Sending tx failed'')"
  using assms
  by (simp_all add: action_monitoring_triggered_event_handler.simps Let_def case_prod_beta
      is_mr_valid_def split: option.split)

declare action_claim_reward_triggered_event_handler.simps [simp del]

lemma example_lookup:
  "get_monitor_request (db (example_context ch d a)) 6 7 11 = Some example_request"
  "mr_token_network_address example_request = 6"
  "mr_channel_identifier example_request = 7"
  "transactions (example_context ch d a) = []"
  "address (ms_state (example_context ch d a)) = 99"
  "monitoring_service_contract (example_context ch d a) call sender = a"
  "user_deposit_contract (example_context ch d a) who = d"
  "min_reward (example_context ch d a) = 1"
  by (simp_all add: example_context_def get_monitor_request_def example_request_def)

lemma example_channels:
  "get_channel (db (example_context example_channel d a)) 6 7 = Some example_channel"
  "get_channel (db (example_context example_closed_channel d a)) 6 7 =
     Some example_closed_channel"
  "get_channel (db (example_context example_claimed_channel d a)) 6 7 =
     Some example_claimed_channel"
  by (simp_all add: example_context_def get_channel_def is_channel_def empty_Database_def
      example_channel_def example_closed_channel_def example_claimed_channel_def
      new_Channel_def)

text \<open>
  Claim C6, as amended. When a \<open>CLAIM_REWARD\<close> action fires, the \<open>claimReward\<close>
  transaction is handed to the chain if and only if the monitor request and its channel
  are stored, no claim transaction was sent yet, the channel has an update status whose
  sender is the service's own address, and the reward is positive.
\<close>

theorem claim_submitted_iff_gate:
  "(transactions (final_context
        (action_claim_reward_triggered_event_handler (ActionClaimRewardTriggeredEvent tn cid np)
           context)) \<noteq> transactions context
      \<longleftrightarrow> claim_gate context tn cid np)
   \<and> (\<forall>mr. get_monitor_request (db context) tn cid np = Some mr \<longrightarrow>
          transactions (final_context
            (action_claim_reward_triggered_event_handler
               (ActionClaimRewardTriggeredEvent tn cid np) context)) =
          (if claim_gate context tn cid np then
             transactions context @
               [(claimReward (mr_channel_identifier mr) (mr_token_network_address mr)
                   (signer mr) (non_closing_signer mr),
                 address (ms_state context))]
           else transactions context))"
proof (cases "get_monitor_request (db context) tn cid np")
  case None
  then show ?thesis
    by (simp add: claim_no_request claim_gate_def)
next
  case (Some mr)
  show ?thesis
  proof (cases "get_channel (db context) (mr_token_network_address mr)
      (mr_channel_identifier mr)")
    case None
    with Some show ?thesis
      by (simp add: claim_no_channel claim_gate_def)
  next
    case c: (Some c)
    have gate: "claim_gate context tn cid np \<longleftrightarrow>
        claim_tx_hash c = None
        \<and> (case update_status c of
              None \<Rightarrow> False
            | Some s \<Rightarrow> update_sender_address s = address (ms_state context))
        \<and> reward_amount mr > 0"
      by (simp add: claim_gate_def Some c)
    have tx: "transactions (final_context
        (action_claim_reward_triggered_event_handler (ActionClaimRewardTriggeredEvent tn cid np)
           context)) =
      (if claim_gate context tn cid np then
         transactions context @
           [(claimReward (mr_channel_identifier mr) (mr_token_network_address mr)
               (signer mr) (non_closing_signer mr),
             address (ms_state context))]
       else transactions context)"
      unfolding gate by (rule claim_transactions [OF Some c])
    show ?thesis
      by (simp add: Some tx)
  qed
qed

theorem claim_submitted_iff_gate_witness:
  "claim_gate (example_context example_closed_channel 30 (Some [0xab])) 6 7 11
   \<and> transactions (final_context
        (action_claim_reward_triggered_event_handler (ActionClaimRewardTriggeredEvent 6 7 11)
           (example_context example_closed_channel 30 (Some [0xab])))) =
       [(claimReward 7 6 10 11, 99)]
   \<and> \<not> claim_gate (example_context example_channel 30 (Some [0xab])) 6 7 11
   \<and> transactions (final_context
        (action_claim_reward_triggered_event_handler (ActionClaimRewardTriggeredEvent 6 7 11)
           (example_context example_channel 30 (Some [0xab])))) = []"
proof -
  have g: "claim_gate (example_context example_closed_channel 30 (Some [0xab])) 6 7 11"
    by code_simp
  have ng: "\<not> claim_gate (example_context example_channel 30 (Some [0xab])) 6 7 11"
    by code_simp
  have a: "transactions (final_context
        (action_claim_reward_triggered_event_handler (ActionClaimRewardTriggeredEvent 6 7 11)
           (example_context example_closed_channel 30 (Some [0xab])))) =
       [(claimReward 7 6 10 11, 99)]"
    using claim_submitted_iff_gate
      [of 6 7 11 "example_context example_closed_channel 30 (Some [0xab])"] g
    by (simp add: example_lookup) (simp add: example_request_def)
  have b: "transactions (final_context
        (action_claim_reward_triggered_event_handler (ActionClaimRewardTriggeredEvent 6 7 11)
           (example_context example_channel 30 (Some [0xab])))) = []"
    using claim_submitted_iff_gate
      [of 6 7 11 "example_context example_channel 30 (Some [0xab])"] ng
    by (simp add: example_lookup)
  show ?thesis
    using a b g ng by simp
qed

text \<open>
  Claim C6 as stated fails: the stored channel's latest update was sent by the service
  itself, yet the action sends nothing, because the claim transaction was sent before.
\<close>

theorem claim_sender_alone_counterexample:
  "get_channel (db (example_context example_claimed_channel 30 (Some [0xab]))) 6 7 =
     Some example_claimed_channel
   \<and> map_option update_sender_address (update_status example_claimed_channel) =
       Some (address (ms_state (example_context example_claimed_channel 30 (Some [0xab]))))
   \<and> transactions (final_context
        (action_claim_reward_triggered_event_handler (ActionClaimRewardTriggeredEvent 6 7 11)
           (example_context example_claimed_channel 30 (Some [0xab])))) =
       transactions (example_context example_claimed_channel 30 (Some [0xab]))"
proof -
  have "transactions (final_context
        (action_claim_reward_triggered_event_handler (ActionClaimRewardTriggeredEvent 6 7 11)
           (example_context example_claimed_channel 30 (Some [0xab])))) =
       transactions (example_context example_claimed_channel 30 (Some [0xab]))"
  proof -
    have "claim_tx_hash example_claimed_channel = Some [0xcd]"
      by (simp add: example_claimed_channel_def)
    then show ?thesis
      by (subst claim_transactions [where mr = example_request and c = example_claimed_channel])
        (simp_all add: example_lookup example_channels)
  qed
  moreover have "map_option update_sender_address (update_status example_claimed_channel) =
       Some (address (ms_state (example_context example_claimed_channel 30 (Some [0xab]))))"
    by code_simp
  ultimately show ?thesis
    by (simp only: example_channels simp_thms)
qed

text \<open>
  Claim C7. When the chain answers every transaction of the service with an exception,
  each of the two action handlers returns without raising and leaves the database as it
  was (so no waiting transaction is added and the channel keeps its \<open>closing_tx_hash\<close> and
  \<open>claim_tx_hash\<close>); and whenever it tried to send a transaction, the last line it logged is
  the error \<open>Sending tx failed\<close>.
\<close>

theorem failed_submission_keeps_state:
  assumes "\<And>call. monitoring_service_contract context call (address (ms_state context)) = None"
  shows
    "raised (action_monitoring_triggered_event_handler
        (ActionMonitoringTriggeredEvent tn cid np) context) = None
     \<and> db (final_context (action_monitoring_triggered_event_handler
        (ActionMonitoringTriggeredEvent tn cid np) context)) = db context
     \<and> (transactions (final_context (action_monitoring_triggered_event_handler
            (ActionMonitoringTriggeredEvent tn cid np) context)) \<noteq> transactions context \<longrightarrow>
          last (log_output (final_context (action_monitoring_triggered_event_handler
            (ActionMonitoringTriggeredEvent tn cid np) context))) =
          (ERROR, ''Sending tx failed''))
     \<and> raised (action_claim_reward_triggered_event_handler
        (ActionClaimRewardTriggeredEvent tn cid np) context) = None
     \<and> db (final_context (action_claim_reward_triggered_event_handler
        (ActionClaimRewardTriggeredEvent tn cid np) context)) = db context
     \<and> (transactions (final_context (action_claim_reward_triggered_event_handler
            (ActionClaimRewardTriggeredEvent tn cid np) context)) \<noteq> transactions context \<longrightarrow>
          last (log_output (final_context (action_claim_reward_triggered_event_handler
            (ActionClaimRewardTriggeredEvent tn cid np) context))) =
          (ERROR, ''Sending tx failed''))"
proof (cases "get_monitor_request (db context) tn cid np")
  case None
  then show ?thesis
    by (simp add: monitoring_no_request claim_no_request)
next
  case (Some mr)
  show ?thesis
  proof (cases "get_channel (db context) (mr_token_network_address mr)
      (mr_channel_identifier mr)")
    case None
    with Some show ?thesis
      by (simp add: monitoring_no_channel claim_no_channel)
  next
    case c: (Some c)
    from monitoring_failed [OF Some c assms] claim_failed [OF Some c assms]
    show ?thesis
      by blast
  qed
qed

theorem failed_submission_keeps_state_witness:
  "db (final_context (action_monitoring_triggered_event_handler
      (ActionMonitoringTriggeredEvent 6 7 11) (example_context example_channel 30 None))) =
     db (example_context example_channel 30 None)
   \<and> transactions (final_context (action_monitoring_triggered_event_handler
      (ActionMonitoringTriggeredEvent 6 7 11) (example_context example_channel 30 None))) =
     [(monitor 10 11 [1] 5 [2] [3] [4] 10 6 [5], 99)]
   \<and> last (log_output (final_context (action_monitoring_triggered_event_handler
      (ActionMonitoringTriggeredEvent 6 7 11) (example_context example_channel 30 None)))) =
     (ERROR, ''Sending tx failed'')
   \<and> db (final_context (action_claim_reward_triggered_event_handler
      (ActionClaimRewardTriggeredEvent 6 7 11)
      (example_context example_closed_channel 30 None))) =
     db (example_context example_closed_channel 30 None)
   \<and> transactions (final_context (action_claim_reward_triggered_event_handler
      (ActionClaimRewardTriggeredEvent 6 7 11)
      (example_context example_closed_channel 30 None))) =
     [(claimReward 7 6 10 11, 99)]
   \<and> last (log_output (final_context (action_claim_reward_triggered_event_handler
      (ActionClaimRewardTriggeredEvent 6 7 11)
      (example_context example_closed_channel 30 None)))) =
     (ERROR, ''Sending tx failed'')"
proof -
  have m: "transactions (final_context (action_monitoring_triggered_event_handler
      (ActionMonitoringTriggeredEvent 6 7 11) (example_context example_channel 30 None))) =
     [(monitor 10 11 [1] 5 [2] [3] [4] 10 6 [5], 99)]"
  proof -
    have "closing_tx_hash example_channel = None" "update_status example_channel = None"
      "participant1 example_channel = 10" "participant2 example_channel = 11"
      by (simp_all add: example_channel_def new_Channel_def)
    then show ?thesis
      by (subst monitoring_transactions [where mr = example_request and c = example_channel])
        (simp_all add: example_lookup example_channels fst_is_mr_valid,
          simp_all add: example_request_def)
  qed
  have c: "transactions (final_context (action_claim_reward_triggered_event_handler
      (ActionClaimRewardTriggeredEvent 6 7 11)
      (example_context example_closed_channel 30 None))) =
     [(claimReward 7 6 10 11, 99)]"
  proof -
    have "claim_tx_hash example_closed_channel = None"
      "update_status example_closed_channel = Some \<lparr>update_sender_address = 99, nonce = 5\<rparr>"
      by (simp_all add: example_closed_channel_def example_channel_def new_Channel_def)
    then show ?thesis
      by (subst claim_transactions [where mr = example_request and c = example_closed_channel])
        (simp_all add: example_lookup example_channels, simp_all add: example_request_def)
  qed
  show ?thesis
    using failed_submission_keeps_state [of "example_context example_channel 30 None" 6 7 11]
      failed_submission_keeps_state [of "example_context example_closed_channel 30 None" 6 7 11]
      m c
    by (simp add: example_lookup)
qed

section \<open>Facts about the store and the handlers of chain events\<close>

lemma find_filter_implied:
  "(\<And>x. P x \<Longrightarrow> Q x) \<Longrightarrow> find P (filter Q xs) = find P xs"
  by (induction xs) auto

lemma get_channel_key:
  "get_channel d tn cid = Some c \<Longrightarrow> token_network_address c = tn \<and> identifier' c = cid"
  by (auto simp: get_channel_def is_channel_def find_Some_iff)

lemma get_channel_upsert_channel:
  "get_channel (upsert_channel c d) tn cid =
     (if token_network_address c = tn \<and> identifier' c = cid then Some c
      else get_channel d tn cid)"
proof -
  have "find (is_channel tn cid)
          (filter (\<lambda>c'. \<not> is_channel (token_network_address c) (identifier' c) c')
             (channels d)) =
        find (is_channel tn cid) (channels d)"
    if "\<not> (token_network_address c = tn \<and> identifier' c = cid)"
    using that by (intro find_filter_implied) (auto simp: is_channel_def)
  then show ?thesis
    by (auto simp: get_channel_def upsert_channel_def is_channel_def)
qed

lemma upsert_channel_fields [simp]:
  "monitor_requests (upsert_channel c d) = monitor_requests d"
  "scheduled_events (upsert_channel c d) = scheduled_events d"
  "waiting_transactions (upsert_channel c d) = waiting_transactions d"
  "stored_blockchain_state (upsert_channel c d) = stored_blockchain_state d"
  by (simp_all add: upsert_channel_def)

lemma upsert_scheduled_event_fields [simp]:
  "channels (upsert_scheduled_event se d) = channels d"
  "monitor_requests (upsert_scheduled_event se d) = monitor_requests d"
  "waiting_transactions (upsert_scheduled_event se d) = waiting_transactions d"
  "stored_blockchain_state (upsert_scheduled_event se d) = stored_blockchain_state d"
  "se \<in> set (scheduled_events (upsert_scheduled_event se d))"
  by (simp_all add: upsert_scheduled_event_def)

lemma get_channel_upsert_scheduled_event [simp]:
  "get_channel (upsert_scheduled_event se d) tn cid = get_channel d tn cid"
  by (simp add: get_channel_def)

lemma get_monitor_request_upsert_channel [simp]:
  "get_monitor_request (upsert_channel c d) tn cid np = get_monitor_request d tn cid np"
  by (simp add: get_monitor_request_def)

lemma update_status_record:
  "s\<lparr>nonce := n, update_sender_address := a\<rparr> = \<lparr>update_sender_address = a, nonce = n\<rparr>"
  by simp

lemma new_balance_proof_absent:
  "get_channel (db context) tn cid = None \<Longrightarrow>
   monitor_new_balance_proof_event_handler
     (ReceiveMonitoringNewBalanceProofEvent tn cid reward n ms node bn) context =
   Returned (log_line ERROR ''Channel not in database'' context)"
  by simp

lemma new_balance_proof_stale:
  "get_channel (db context) tn cid = Some c \<Longrightarrow> update_status c = Some s \<Longrightarrow>
   n < nonce s \<Longrightarrow>
   monitor_new_balance_proof_event_handler
     (ReceiveMonitoringNewBalanceProofEvent tn cid reward n ms node bn) context =
   Returned
     (log_line ERROR ''MSC NewBalanceProof nonce smaller than the known one, ignoring.''
        (log_line INFO ''Received MSC NewBalanceProof event'' context))"
  by (simp add: Let_def)

lemma new_balance_proof_update:
  assumes "get_channel (db context) tn cid = Some c"
    and "case update_status c of None \<Rightarrow> True | Some s \<Rightarrow> nonce s \<le> n"
  shows "monitor_new_balance_proof_event_handler
     (ReceiveMonitoringNewBalanceProofEvent tn cid reward n ms node bn) context =
   (let c' = c\<lparr>update_status := Some \<lparr>update_sender_address = ms, nonce = n\<rparr>\<rparr>;
        context' =
          (log_line INFO
             (if update_status c = None then ''Creating channel update state''
              else ''Updating channel update state'')
             (log_line INFO ''Received MSC NewBalanceProof event'' context))
          \<lparr>db := upsert_channel c' (db context)\<rparr>
    in if ms = address (ms_state context) then
         (case closing_block c of
            None \<Rightarrow> Raised AssertionError context'
          | Some cb \<Rightarrow>
              Returned
                (context'\<lparr>db :=
                   upsert_scheduled_event
                     \<lparr>trigger_block_number = cb + settle_timeout c + 5,
                      event = ActionClaimRewardTriggeredEvent (token_network_address c)
                        (identifier' c) node\<rparr>
                     (upsert_channel c' (db context))\<rparr>))
       else Returned context')"
proof (cases "update_status c")
  case None
  with assms show ?thesis
    by (simp add: Let_def split: option.split)
next
  case (Some s)
  obtain a b where "s = \<lparr>update_sender_address = a, nonce = b\<rparr>"
    by (cases s) simp
  with Some assms show ?thesis
    by (simp add: Let_def split: option.split)
qed

lemma non_closing_absent:
  "get_channel (db context) tn cid = None \<Longrightarrow>
   non_closing_balance_proof_updated_event_handler
     (ReceiveNonClosingBalanceProofUpdatedEvent tn cid closing n bn) context =
   Returned (log_line ERROR ''Channel not in database'' context)"
  by simp

lemma non_closing_invalid:
  "get_channel (db context) tn cid = Some c \<Longrightarrow> closing \<noteq> participant1 c \<Longrightarrow>
   closing \<noteq> participant2 c \<Longrightarrow>
   non_closing_balance_proof_updated_event_handler
     (ReceiveNonClosingBalanceProofUpdatedEvent tn cid closing n bn) context =
   Returned
     (log_line ERROR ''Update event contains invalid closing participant''
        (log_line INFO ''Received update event for channel'' context))"
  by (simp add: Let_def)

lemma non_closing_stale:
  "get_channel (db context) tn cid = Some c \<Longrightarrow> update_status c = Some s \<Longrightarrow>
   n \<le> nonce s \<Longrightarrow>
   db (final_context (non_closing_balance_proof_updated_event_handler
     (ReceiveNonClosingBalanceProofUpdatedEvent tn cid closing n bn) context)) = db context
   \<and> raised (non_closing_balance_proof_updated_event_handler
     (ReceiveNonClosingBalanceProofUpdatedEvent tn cid closing n bn) context) = None"
  by (simp add: Let_def)

lemma non_closing_update:
  assumes "get_channel (db context) tn cid = Some c"
    and "closing = participant1 c \<or> closing = participant2 c"
    and "case update_status c of None \<Rightarrow> True | Some s \<Rightarrow> nonce s < n"
  shows "non_closing_balance_proof_updated_event_handler
     (ReceiveNonClosingBalanceProofUpdatedEvent tn cid closing n bn) context =
   Returned
     ((log_line INFO
         (if update_status c = None then ''Creating channel update state''
          else ''Updating channel update state'')
         (log_line INFO ''Received update event for channel'' context))
      \<lparr>db :=
         upsert_channel
           (c\<lparr>update_status :=
              Some \<lparr>update_sender_address =
                      (if closing = participant1 c then participant2 c else participant1 c),
                    nonce = n\<rparr>\<rparr>)
           (db context)\<rparr>)"
proof (cases "update_status c")
  case None
  with assms show ?thesis
    by (auto simp: Let_def)
next
  case (Some s)
  obtain a b where "s = \<lparr>update_sender_address = a, nonce = b\<rparr>"
    by (cases s) simp
  with Some assms show ?thesis
    by (auto simp: Let_def)
qed

lemma closed_absent:
  "get_channel (db context) tn cid = None \<Longrightarrow>
   channel_closed_event_handler (ReceiveChannelClosedEvent tn cid closing bn) context =
   Returned (log_line ERROR ''Channel not in database'' context)"
  by simp

lemma settled_absent:
  "get_channel (db context) tn cid = None \<Longrightarrow>
   channel_settled_event_handler (ReceiveChannelSettledEvent tn cid bn) context =
   Returned (log_line ERROR ''Channel not in database'' context)"
  by simp

lemma settled_present:
  "get_channel (db context) tn cid = Some c \<Longrightarrow>
   channel_settled_event_handler (ReceiveChannelSettledEvent tn cid bn) context =
   Returned
     ((log_line INFO ''Received settle event for channel'' context)
      \<lparr>db := upsert_channel (c\<lparr>state := SETTLED\<rparr>) (db context)\<rparr>)"
  by (simp add: Let_def)

declare monitor_new_balance_proof_event_handler.simps [simp del]
declare non_closing_balance_proof_updated_event_handler.simps [simp del]
declare channel_settled_event_handler.simps [simp del]

lemma example_channels':
  "get_channel (db (example_context example_updated_channel d a)) 6 7 =
     Some example_updated_channel"
  "get_channel (db (example_context example_unclosed_channel d a)) 6 7 =
     Some example_unclosed_channel"
  by (simp_all add: example_context_def get_channel_def is_channel_def empty_Database_def
      example_channel_def example_closed_channel_def example_updated_channel_def
      example_unclosed_channel_def new_Channel_def)

lemma example_db:
  "db (example_context ch d a) =
     \<lparr>channels = [ch], monitor_requests = [example_request], scheduled_events = [],
      waiting_transactions = [], stored_blockchain_state = example_blockchain_state\<rparr>"
  by (simp add: example_context_def empty_Database_def)

section \<open>Updates of the balance proof seen on chain\<close>

text \<open>
  Claim C4. For a stored channel that already has an update status: a
  \<open>NonClosingBalanceProofUpdated\<close> event with a nonce equal to or smaller than the stored
  one leaves the database unchanged, and one with a strictly greater nonce (and a closing
  participant of the channel) stores the event's nonce and the other participant as
  sender; a \<open>MonitorNewBalanceProof\<close> event with a nonce greater than or equal to the stored
  one stores the event's nonce and its \<open>ms_address\<close> as sender, and one with a strictly
  smaller nonce leaves the database unchanged and the handler returns.
\<close>

theorem update_nonce_checks:
  assumes "get_channel (db context) tn cid = Some c" and "update_status c = Some s"
  shows
    "(n \<le> nonce s \<longrightarrow>
        db (final_context (non_closing_balance_proof_updated_event_handler
          (ReceiveNonClosingBalanceProofUpdatedEvent tn cid closing n bn) context)) = db context)
     \<and> (nonce s < n \<longrightarrow> (closing = participant1 c \<or> closing = participant2 c) \<longrightarrow>
        get_channel (db (final_context (non_closing_balance_proof_updated_event_handler
          (ReceiveNonClosingBalanceProofUpdatedEvent tn cid closing n bn) context))) tn cid =
        Some (c\<lparr>update_status :=
                Some \<lparr>update_sender_address =
                        (if closing = participant1 c then participant2 c else participant1 c),
                      nonce = n\<rparr>\<rparr>))
     \<and> (nonce s \<le> n \<longrightarrow>
        get_channel (db (final_context (monitor_new_balance_proof_event_handler
          (ReceiveMonitoringNewBalanceProofEvent tn cid reward n ms node bn) context))) tn cid =
        Some (c\<lparr>update_status := Some \<lparr>update_sender_address = ms, nonce = n\<rparr>\<rparr>))
     \<and> (n < nonce s \<longrightarrow>
        db (final_context (monitor_new_balance_proof_event_handler
          (ReceiveMonitoringNewBalanceProofEvent tn cid reward n ms node bn) context)) =
          db context
        \<and> raised (monitor_new_balance_proof_event_handler
          (ReceiveMonitoringNewBalanceProofEvent tn cid reward n ms node bn) context) = None)"
proof -
  note key = get_channel_key [OF assms(1)]
  have 1: "n \<le> nonce s \<Longrightarrow>
      db (final_context (non_closing_balance_proof_updated_event_handler
          (ReceiveNonClosingBalanceProofUpdatedEvent tn cid closing n bn) context)) = db context"
    using non_closing_stale [OF assms] by blast
  have 2: "get_channel (db (final_context (non_closing_balance_proof_updated_event_handler
          (ReceiveNonClosingBalanceProofUpdatedEvent tn cid closing n bn) context))) tn cid =
        Some (c\<lparr>update_status :=
                Some \<lparr>update_sender_address =
                        (if closing = participant1 c then participant2 c else participant1 c),
                      nonce = n\<rparr>\<rparr>)"
    if "nonce s < n" "closing = participant1 c \<or> closing = participant2 c"
    using that assms key
    by (subst non_closing_update [where c = c]) (simp_all add: get_channel_upsert_channel)
  have 3: "get_channel (db (final_context (monitor_new_balance_proof_event_handler
          (ReceiveMonitoringNewBalanceProofEvent tn cid reward n ms node bn) context))) tn cid =
        Some (c\<lparr>update_status := Some \<lparr>update_sender_address = ms, nonce = n\<rparr>\<rparr>)"
    if "nonce s \<le> n"
    using that assms key
    by (subst new_balance_proof_update [where c = c])
      (simp_all add: Let_def get_channel_upsert_channel split: option.split)
  have 4: "db (final_context (monitor_new_balance_proof_event_handler
          (ReceiveMonitoringNewBalanceProofEvent tn cid reward n ms node bn) context)) =
          db context
        \<and> raised (monitor_new_balance_proof_event_handler
          (ReceiveMonitoringNewBalanceProofEvent tn cid reward n ms node bn) context) = None"
    if "n < nonce s"
    using that by (simp add: new_balance_proof_stale [OF assms])
  from 1 2 3 4 show ?thesis
    by blast
qed

lemma example_channel_fields:
  "update_status example_updated_channel = Some \<lparr>update_sender_address = 11, nonce = 5\<rparr>"
  "participant1 example_updated_channel = 10"
  "participant2 example_updated_channel = 11"
  "update_status example_closed_channel = Some \<lparr>update_sender_address = 99, nonce = 5\<rparr>"
  "closing_block example_closed_channel = Some 150"
  "settle_timeout example_closed_channel = 20"
  "token_network_address example_closed_channel = 6"
  "identifier' example_closed_channel = 7"
  "update_status example_unclosed_channel = Some \<lparr>update_sender_address = 11, nonce = 5\<rparr>"
  "closing_block example_unclosed_channel = None"
  by (simp_all add: example_channel_def example_closed_channel_def example_updated_channel_def
      example_unclosed_channel_def new_Channel_def)

theorem update_nonce_checks_witness:
  "db (final_context (non_closing_balance_proof_updated_event_handler
      (ReceiveNonClosingBalanceProofUpdatedEvent 6 7 10 5 160)
      (example_context example_updated_channel 30 (Some [0xab])))) =
     db (example_context example_updated_channel 30 (Some [0xab]))
   \<and> get_channel (db (final_context (non_closing_balance_proof_updated_event_handler
      (ReceiveNonClosingBalanceProofUpdatedEvent 6 7 10 6 160)
      (example_context example_updated_channel 30 (Some [0xab]))))) 6 7 =
     Some (example_updated_channel
             \<lparr>update_status := Some \<lparr>update_sender_address = 11, nonce = 6\<rparr>\<rparr>)
   \<and> get_channel (db (final_context (monitor_new_balance_proof_event_handler
      (ReceiveMonitoringNewBalanceProofEvent 6 7 10 5 99 11 160)
      (example_context example_updated_channel 30 (Some [0xab]))))) 6 7 =
     Some (example_updated_channel
             \<lparr>update_status := Some \<lparr>update_sender_address = 99, nonce = 5\<rparr>\<rparr>)
   \<and> db (final_context (monitor_new_balance_proof_event_handler
      (ReceiveMonitoringNewBalanceProofEvent 6 7 10 4 99 11 160)
      (example_context example_updated_channel 30 (Some [0xab])))) =
     db (example_context example_updated_channel 30 (Some [0xab]))"
proof -
  note th = update_nonce_checks
    [OF example_channels'(1) [of 30 "Some [0xab]"] example_channel_fields(1)]
  show ?thesis
    using th [where n = 5 and closing = 10 and bn = 160 and reward = 10 and ms = 99
        and node = 11]
      th [where n = 6 and closing = 10 and bn = 160 and reward = 10 and ms = 99
        and node = 11]
      th [where n = 4 and closing = 10 and bn = 160 and reward = 10 and ms = 99
        and node = 11]
    by (simp add: example_channel_fields)
qed

section \<open>Python's rounding of the monitor window\<close>

lemma round_half_even_div_error:
  assumes "0 < b"
  shows "2 * \<bar>round_half_even_div a b * b - a\<bar> \<le> b"
proof -
  define q r where "q = a div b" and "r = a mod b"
  have a: "a = q * b + r"
    by (simp add: q_def r_def)
  have r: "0 \<le> r" "r < b"
    using assms by (simp_all add: r_def)
  have "round_half_even_div a b = q \<and> 2 * r \<le> b
      \<or> round_half_even_div a b = q + 1 \<and> b \<le> 2 * r"
    unfolding round_half_even_div_def Let_def q_def [symmetric] r_def [symmetric] by auto
  then show ?thesis
  proof
    assume "round_half_even_div a b = q \<and> 2 * r \<le> b"
    then show ?thesis
      using r by (simp add: a)
  next
    assume h: "round_half_even_div a b = q + 1 \<and> b \<le> 2 * r"
    have "(q + 1) * b - a = b - r"
      by (simp add: a algebra_simps)
    with h r show ?thesis
      by simp
  qed
qed

lemma round_half_even_div_bounds:
  assumes "0 < b" "0 \<le> a"
  shows "0 \<le> round_half_even_div a b" and "round_half_even_div a b \<le> a div b + 1"
proof -
  have "0 \<le> a div b" using assms by (simp add: pos_imp_zdiv_nonneg_iff)
  then show "0 \<le> round_half_even_div a b" "round_half_even_div a b \<le> a div b + 1"
    unfolding round_half_even_div_def Let_def by auto
qed

lemma to_binary64_rounds:
  assumes "0 \<le> m" and "m < 2 ^ w" and "- 1074 \<le> e" and "int w + e + 1 \<le> 1024"
  shows "\<exists>m' s. to_binary64 m e = Some (m', e + int s) \<and> 0 \<le> m' \<and> m' \<le> 2 ^ 53
           \<and> s \<le> w - 53 \<and> 2 * \<bar>m' * 2 ^ s - m\<bar> \<le> 2 ^ s \<and> (s = 0 \<longrightarrow> m' = m)"
proof -
  have bw: "bitlen m \<le> int w"
    using assms(2) by (simp add: bitlen_le_iff_power)
  have bn: "0 \<le> bitlen m" by (rule bitlen_nonneg)
  show ?thesis
  proof (cases "bitlen m \<le> 53")
    case True
    then have s: "max (bitlen \<bar>m\<bar> - 53) (- 1074 - e) \<le> 0"
      using assms(1,3) by simp
    have "m < 2 ^ 53"
      using True by (simp add: bitlen_le_iff_power)
    moreover have "\<not> 1024 < bitlen \<bar>m\<bar> + e"
      using bw assms(1,4) by simp
    ultimately have "to_binary64 m e = Some (m, e + int 0) \<and> 0 \<le> m \<and> m \<le> 2 ^ 53
        \<and> 0 \<le> w - 53 \<and> 2 * \<bar>m * 2 ^ 0 - m\<bar> \<le> 2 ^ (0::nat) \<and> (0 = (0::nat) \<longrightarrow> m = m)"
      using s assms(1) by (simp add: to_binary64_def Let_def)
    then show ?thesis by blast
  next
    case False
    define s where "s = nat (bitlen m - 53)"
    have spos: "0 < s" "int s = bitlen m - 53"
      using False by (simp_all add: s_def)
    have smax: "max (bitlen \<bar>m\<bar> - 53) (- 1074 - e) = int s"
      using assms(1,3) spos by simp
    define m' where "m' = round_half_even_div m (2 ^ s)"
    have mlt: "m < 2 ^ 53 * 2 ^ s"
    proof -
      have "bitlen m \<le> int (53 + s)" using spos by simp
      then have "m < 2 ^ nat (int (53 + s))"
        using bitlen_le_iff_power [of m "int (53 + s)"] by blast
      then have "m < 2 ^ (53 + s)"
        by (simp only: nat_int)
      then show ?thesis by (simp add: power_add)
    qed
    have "m div 2 ^ s < 2 ^ 53"
    proof -
      have "m div 2 ^ s * 2 ^ s = m - m mod 2 ^ s"
        by (simp add: minus_mod_eq_div_mult)
      moreover have "0 \<le> m mod 2 ^ s"
        by simp
      ultimately have "m div 2 ^ s * 2 ^ s < 2 ^ 53 * 2 ^ s"
        using mlt by linarith
      then show ?thesis
        by (rule mult_right_less_imp_less) simp
    qed
    then have m'le: "m' \<le> 2 ^ 53" and m'ge: "0 \<le> m'"
      using round_half_even_div_bounds [of "2 ^ s" m] assms(1) by (simp_all add: m'_def)
    have err: "2 * \<bar>m' * 2 ^ s - m\<bar> \<le> 2 ^ s"
      using round_half_even_div_error [of "2 ^ s" m] by (simp add: m'_def)
    have "m' < 2 ^ 54" using m'le by simp
    then have "bitlen m' \<le> 54"
      by (simp add: bitlen_le_iff_power)
    then have noov: "\<not> 1024 < bitlen \<bar>m'\<bar> + (e + int s)"
      using m'ge spos bw assms(4) by simp
    have sle: "s \<le> w - 53"
      using spos bw by linarith
    have "to_binary64 m e = Some (m', e + int s)"
      using smax spos(1) noov by (simp add: to_binary64_def Let_def m'_def)
    with m'ge m'le sle err spos show ?thesis
      by blast
  qed
qed

lemma py_round_returns: "x \<noteq> None \<Longrightarrow> \<exists>p. py_round x = Inr p"
  by (auto simp: py_round_def)

lemma round_ratio_returns:
  assumes "0 \<le> n" and "n < 2 ^ 256"
  shows "\<exists>p. round_ratio_of_settle_timeout n = Inr p"
proof -
  obtain m1 s1 where c: "to_binary64 n 0 = Some (m1, 0 + int s1)"
    and m1: "0 \<le> m1" "m1 \<le> 2 ^ 53" and s1: "s1 \<le> 256 - 53"
    using to_binary64_rounds [of n 256 0] assms by auto
  have "m1 * 3602879701896397 \<le> 2 ^ 53 * 3602879701896397"
    using m1 by (intro mult_right_mono) simp_all
  then have lt: "m1 * 3602879701896397 < 2 ^ 105"
    by simp
  have "\<exists>m' s. to_binary64 (m1 * 3602879701896397) (int s1 + - 52) =
      Some (m', int s1 + - 52 + int s)"
    using to_binary64_rounds [of "m1 * 3602879701896397" 105 "int s1 + - 52"] m1 lt s1
    by auto
  then have "to_binary64 (m1 * 3602879701896397) (int s1 + - 52) \<noteq> None"
    by auto
  then show ?thesis
    using c
    by (simp add: round_ratio_of_settle_timeout_def py_int_mul_float_def
        RATIO_OF_SETTLE_TIMEOUT_BEFORE_MONITOR_def py_round_returns)
qed

lemma round_ratio_exact:
  assumes "0 \<le> n" and "n < 2 ^ 48"
  shows "round_ratio_of_settle_timeout n = Inr ((8 * n + 5) div 10)"
proof -
  define K where "K = n * 3602879701896397"
  have c: "to_binary64 n 0 = Some (n, 0)"
    using to_binary64_rounds [of n 48 0] assms by auto
  have K: "0 \<le> K" "K < 2 ^ 100" "5 * K = n * (4 * 2 ^ 52 + 1)"
    using assms by (simp_all add: K_def)
  obtain m2 s2 where p: "to_binary64 K (- 52) = Some (m2, - 52 + int s2)"
    and s2: "s2 \<le> 100 - 53" and e2: "2 * \<bar>m2 * 2 ^ s2 - K\<bar> \<le> 2 ^ s2"
    using to_binary64_rounds [of K 100 "- 52"] K by auto
  define r where "r = round_half_even_div m2 (2 ^ (52 - s2))"
  define D where "D = m2 * 2 ^ s2"
  define B P :: int where "B = 2 ^ (52 - s2)" and "P = 2 ^ s2"
  define x where "x = r * B - m2"
  have BP: "B * P = 2 ^ 52" and P: "0 \<le> P"
    using s2 by (simp_all add: B_def P_def flip: power_add)
  have "2 * \<bar>x\<bar> \<le> B"
    unfolding x_def r_def B_def by (rule round_half_even_div_error) simp
  then have le: "(2 * \<bar>x\<bar>) * P \<le> B * P"
    using P by (rule mult_right_mono)
  have DP: "D = m2 * P"
    by (simp add: D_def P_def)
  have xP: "x * P = r * 2 ^ 52 - D"
    by (simp only: x_def left_diff_distrib mult.assoc BP DP)
  have "\<bar>x * P\<bar> = \<bar>x\<bar> * P"
    using abs_mult_pos [OF P, of x] by simp
  then have "2 * \<bar>x * P\<bar> = (2 * \<bar>x\<bar>) * P"
    by (simp only: mult.assoc)
  also note le
  also note BP
  finally have a1: "2 * \<bar>r * 2 ^ 52 - D\<bar> \<le> 2 ^ 52"
    by (simp only: xP)
  have "(2::int) ^ s2 \<le> 2 ^ 47"
    using s2 by (intro power_increasing) simp_all
  with e2 have a2: "2 * \<bar>D - K\<bar> \<le> 2 ^ 47"
    by (simp add: D_def)
  define t where "t = (8 * n + 5) div 10"
  have t: "10 * t \<le> 8 * n + 4" "8 * n \<le> 10 * t + 4"
    unfolding t_def by presburger+
  have "r = t"
    using a1 a2 K(3) assms t by simp
  moreover have "py_round (Some (m2, - 52 + int s2)) = Inr r"
    using s2 by (simp add: py_round_def r_def nat_diff_distrib')
  ultimately show ?thesis
    using c p
    by (simp add: round_ratio_of_settle_timeout_def py_int_mul_float_def
        RATIO_OF_SETTLE_TIMEOUT_BEFORE_MONITOR_def K_def t_def)
qed

lemma ratio_is_nearest_binary64:
  "round_half_even_div (4 * 2 ^ 53) 5 = 2 * fst RATIO_OF_SETTLE_TIMEOUT_BEFORE_MONITOR
   \<and> snd RATIO_OF_SETTLE_TIMEOUT_BEFORE_MONITOR = - 52"
  by (simp add: round_half_even_div_def RATIO_OF_SETTLE_TIMEOUT_BEFORE_MONITOR_def)

lemma closed_present:
  assumes "get_channel (db context) tn cid = Some c"
  shows "channel_closed_event_handler (ReceiveChannelClosedEvent tn cid closing bn) context =
    (let c' = c\<lparr>state := CLOSED, closing_block := Some bn,
                closing_participant := Some closing\<rparr>
     in if bn + settle_timeout c < last_known_block context then
          Returned
            ((log_line WARNING ''Settle period timeout is in the past, skipping'' context)
             \<lparr>db := upsert_channel c' (db context)\<rparr>)
        else
          (case round_ratio_of_settle_timeout (settle_timeout c) of
             Inl e \<Rightarrow> Raised e context
           | Inr p \<Rightarrow>
               Returned
                 ((log_line INFO ''Channel closed, triggering monitoring check'' context)
                  \<lparr>db :=
                     upsert_channel c'
                       (upsert_scheduled_event
                          \<lparr>trigger_block_number = bn + p,
                           event = ActionMonitoringTriggeredEvent (token_network_address c)
                             (identifier' c)
                             (if participant1 c = closing then participant2 c
                              else participant1 c)\<rparr>
                          (db context))\<rparr>)))"
  using assms by (simp add: Let_def split: sum.split)

declare channel_closed_event_handler.simps [simp del]

section \<open>Closing of a channel\<close>

text \<open>
  Claim C2, as amended. For a \<open>ChannelClosed\<close> event whose channel is stored (with a
  settle timeout in the range of the contract's unsigned 256-bit integers), the handler
  returns and the stored channel has state \<open>CLOSED\<close>, the event's block number as closing
  block and the event's closing participant. When \<open>block_number + settle_timeout\<close> is
  strictly below the field \<open>last_known_block\<close> of the context (not \<open>latest_known_block\<close>
  of the blockchain state) the scheduled events are left as they were; otherwise exactly
  the action \<open>MONITOR\<close> with trigger block \<open>block_number + round(settle_timeout * 0.8)\<close>
  is upserted, for the participant of the channel other than the closing one. The
  rounding is Python's, on floats; below \<open>2 ^ 48\<close> it is the integer nearest to four
  fifths of the settle timeout.
\<close>

theorem channel_closed_effects:
  assumes "get_channel (db context) tn cid = Some c"
    and "0 \<le> settle_timeout c" and "settle_timeout c < 2 ^ 256"
  shows
    "\<exists>p. round_ratio_of_settle_timeout (settle_timeout c) = Inr p
       \<and> (settle_timeout c < 2 ^ 48 \<longrightarrow> p = (8 * settle_timeout c + 5) div 10)
       \<and> raised (channel_closed_event_handler (ReceiveChannelClosedEvent tn cid closing bn)
            context) = None
       \<and> get_channel (db (final_context (channel_closed_event_handler
            (ReceiveChannelClosedEvent tn cid closing bn) context))) tn cid =
          Some (c\<lparr>state := CLOSED, closing_block := Some bn,
                  closing_participant := Some closing\<rparr>)
       \<and> scheduled_events (db (final_context (channel_closed_event_handler
            (ReceiveChannelClosedEvent tn cid closing bn) context))) =
          (if bn + settle_timeout c < last_known_block context then
             scheduled_events (db context)
           else
             scheduled_events
               (upsert_scheduled_event
                  \<lparr>trigger_block_number = bn + p,
                   event = ActionMonitoringTriggeredEvent (token_network_address c)
                     (identifier' c)
                     (if participant1 c = closing then participant2 c else participant1 c)\<rparr>
                  (db context)))
       \<and> (participant1 c \<noteq> participant2 c \<longrightarrow>
            (closing = participant1 c \<or> closing = participant2 c) \<longrightarrow>
            (if participant1 c = closing then participant2 c else participant1 c) \<noteq> closing)"
proof -
  obtain p where p: "round_ratio_of_settle_timeout (settle_timeout c) = Inr p"
    using round_ratio_returns [OF assms(2,3)] by blast
  have exact: "p = (8 * settle_timeout c + 5) div 10" if "settle_timeout c < 2 ^ 48"
    using round_ratio_exact [OF assms(2) that] p by simp
  note key = get_channel_key [OF assms(1)]
  have "raised (channel_closed_event_handler (ReceiveChannelClosedEvent tn cid closing bn)
            context) = None"
    by (simp add: closed_present [OF assms(1)] Let_def p)
  moreover have "get_channel (db (final_context (channel_closed_event_handler
            (ReceiveChannelClosedEvent tn cid closing bn) context))) tn cid =
          Some (c\<lparr>state := CLOSED, closing_block := Some bn,
                  closing_participant := Some closing\<rparr>)"
    using key by (simp add: closed_present [OF assms(1)] Let_def p get_channel_upsert_channel)
  moreover have "scheduled_events (db (final_context (channel_closed_event_handler
            (ReceiveChannelClosedEvent tn cid closing bn) context))) =
          (if bn + settle_timeout c < last_known_block context then
             scheduled_events (db context)
           else
             scheduled_events
               (upsert_scheduled_event
                  \<lparr>trigger_block_number = bn + p,
                   event = ActionMonitoringTriggeredEvent (token_network_address c)
                     (identifier' c)
                     (if participant1 c = closing then participant2 c else participant1 c)\<rparr>
                  (db context)))"
    by (simp add: closed_present [OF assms(1)] Let_def p)
  ultimately show ?thesis
    using p exact by auto
qed

theorem channel_closed_effects_witness:
  "get_channel (db (final_context (channel_closed_event_handler
      (ReceiveChannelClosedEvent 6 7 10 150)
      (example_context example_channel 30 (Some [0xab]))))) 6 7 =
     Some (example_channel\<lparr>state := CLOSED, closing_block := Some 150,
             closing_participant := Some 10\<rparr>)
   \<and> scheduled_events (db (final_context (channel_closed_event_handler
      (ReceiveChannelClosedEvent 6 7 10 150)
      (example_context example_channel 30 (Some [0xab]))))) =
     [\<lparr>trigger_block_number = 166, event = ActionMonitoringTriggeredEvent 6 7 11\<rparr>]
   \<and> scheduled_events (db (final_context (channel_closed_event_handler
      (ReceiveChannelClosedEvent 6 7 10 50)
      (example_context example_channel 30 (Some [0xab]))))) = []"
proof -
  have f: "settle_timeout example_channel = 20" "participant1 example_channel = 10"
    "participant2 example_channel = 11" "token_network_address example_channel = 6"
    "identifier' example_channel = 7"
    by (simp_all add: example_channel_def new_Channel_def)
  have l: "last_known_block (example_context example_channel 30 (Some [0xab])) = 100"
    by (simp add: example_context_def)
  note ch = example_channels(1) [of 30 "Some [0xab]"]
  show ?thesis
    using channel_closed_effects [OF ch, where closing = 10 and bn = 150]
      channel_closed_effects [OF ch, where closing = 10 and bn = 50]
    by (auto simp: f l example_db upsert_scheduled_event_def)
qed

text \<open>
  Claim C2 as stated fails: the handler of \<open>ChannelClosed\<close> compares the end of the settle
  period with the field \<open>last_known_block\<close> of the context, which no handler changes, and
  not with \<open>latest_known_block\<close> of the blockchain state. After the head block \<open>200\<close> was
  processed the blockchain state, in memory and persisted, has \<open>latest_known_block = 200\<close>;
  the channel closed in block \<open>150\<close> with settle timeout \<open>20\<close> has its settle period end
  \<open>170\<close> strictly before it, and the \<open>MONITOR\<close> action is scheduled all the same.
\<close>

theorem closed_after_head_update_counterexample:
  "latest_known_block (stored_blockchain_state (db (final_context
      (handle_event (UpdatedHeadBlockEvent 200)
         (example_context example_channel 30 (Some [0xab])))))) = 200
   \<and> latest_known_block (blockchain_state (ms_state (final_context
      (handle_event (UpdatedHeadBlockEvent 200)
         (example_context example_channel 30 (Some [0xab])))))) = 200
   \<and> get_channel (db (final_context
      (handle_event (UpdatedHeadBlockEvent 200)
         (example_context example_channel 30 (Some [0xab]))))) 6 7 = Some example_channel
   \<and> settle_timeout example_channel = 20
   \<and> scheduled_events (db (final_context
      (process_events [UpdatedHeadBlockEvent 200, ReceiveChannelClosedEvent 6 7 10 150]
         (example_context example_channel 30 (Some [0xab]))))) =
     [\<lparr>trigger_block_number = 166, event = ActionMonitoringTriggeredEvent 6 7 11\<rparr>]"
  by code_simp

section \<open>Scheduling of the reward claim\<close>

text \<open>
  Claim C5, as amended. For a \<open>MonitorNewBalanceProof\<close> event on a stored channel that
  passes the nonce check and carries the service's own address as \<open>ms_address\<close>: when the
  channel has its closing block recorded, the handler returns after upserting the
  scheduled action \<open>CLAIM_REWARD\<close> with trigger block \<open>closing_block + settle_timeout + 5\<close>
  for the channel and the event's raiden node address (on top of the channel update);
  when the channel has no closing block recorded, the handler raises \<open>AssertionError\<close> and
  the scheduled events are left as they were.
\<close>

theorem claim_reward_scheduled:
  assumes "get_channel (db context) tn cid = Some c"
    and "case update_status c of None \<Rightarrow> True | Some s \<Rightarrow> nonce s \<le> n"
    and "ms = address (ms_state context)"
  shows
    "(\<forall>cb. closing_block c = Some cb \<longrightarrow>
        raised (monitor_new_balance_proof_event_handler
          (ReceiveMonitoringNewBalanceProofEvent tn cid reward n ms node bn) context) = None
        \<and> db (final_context (monitor_new_balance_proof_event_handler
            (ReceiveMonitoringNewBalanceProofEvent tn cid reward n ms node bn) context)) =
          upsert_scheduled_event
            \<lparr>trigger_block_number = cb + settle_timeout c + 5,
             event = ActionClaimRewardTriggeredEvent (token_network_address c) (identifier' c)
               node\<rparr>
            (upsert_channel
               (c\<lparr>update_status := Some \<lparr>update_sender_address = ms, nonce = n\<rparr>\<rparr>)
               (db context))
        \<and> \<lparr>trigger_block_number = cb + settle_timeout c + 5,
            event = ActionClaimRewardTriggeredEvent (token_network_address c) (identifier' c)
              node\<rparr>
           \<in> set (scheduled_events (db (final_context (monitor_new_balance_proof_event_handler
                (ReceiveMonitoringNewBalanceProofEvent tn cid reward n ms node bn) context)))))
     \<and> (closing_block c = None \<longrightarrow>
        raised (monitor_new_balance_proof_event_handler
          (ReceiveMonitoringNewBalanceProofEvent tn cid reward n ms node bn) context) =
          Some AssertionError
        \<and> scheduled_events (db (final_context (monitor_new_balance_proof_event_handler
            (ReceiveMonitoringNewBalanceProofEvent tn cid reward n ms node bn) context))) =
          scheduled_events (db context))"
  using assms(3)
  by (simp add: new_balance_proof_update [OF assms(1,2)] Let_def)

theorem claim_reward_scheduled_witness:
  "raised (monitor_new_balance_proof_event_handler
      (ReceiveMonitoringNewBalanceProofEvent 6 7 10 5 99 11 167)
      (example_context example_closed_channel 30 (Some [0xab]))) = None
   \<and> scheduled_events (db (final_context (monitor_new_balance_proof_event_handler
      (ReceiveMonitoringNewBalanceProofEvent 6 7 10 5 99 11 167)
      (example_context example_closed_channel 30 (Some [0xab]))))) =
     [\<lparr>trigger_block_number = 175, event = ActionClaimRewardTriggeredEvent 6 7 11\<rparr>]
   \<and> raised (monitor_new_balance_proof_event_handler
      (ReceiveMonitoringNewBalanceProofEvent 6 7 10 5 99 11 167)
      (example_context example_channel 30 (Some [0xab]))) = Some AssertionError
   \<and> scheduled_events (db (final_context (monitor_new_balance_proof_event_handler
      (ReceiveMonitoringNewBalanceProofEvent 6 7 10 5 99 11 167)
      (example_context example_channel 30 (Some [0xab]))))) = []"
proof -
  have nonce_ok: "case update_status example_closed_channel of
      None \<Rightarrow> True | Some s \<Rightarrow> nonce s \<le> 5"
    by (simp add: example_channel_fields)
  have fresh: "update_status example_channel = None" "closing_block example_channel = None"
    by (simp_all add: example_channel_def new_Channel_def)
  have nonce_ok': "case update_status example_channel of
      None \<Rightarrow> True | Some s \<Rightarrow> nonce s \<le> 5"
    by (simp add: fresh)
  have own: "99 = address (ms_state (example_context ch 30 (Some [0xab])))" for ch
    by (simp add: example_lookup)
  show ?thesis
    using claim_reward_scheduled
      [OF example_channels(2) [of 30 "Some [0xab]"] nonce_ok own,
        where reward = 10 and node = 11 and bn = 167]
      claim_reward_scheduled
      [OF example_channels(1) [of 30 "Some [0xab]"] nonce_ok' own,
        where reward = 10 and node = 11 and bn = 167]
    by (simp add: example_channel_fields fresh example_db upsert_scheduled_event_def)
qed

text \<open>
  Claim C5 as stated fails: the event carries the service's own address and its nonce \<open>6\<close>
  passes the nonce check of the stored channel (nonce \<open>5\<close>), but the channel has no closing
  block; the handler raises \<open>AssertionError\<close> and no action is scheduled.
\<close>

theorem claim_without_closing_block_counterexample:
  "get_channel (db (example_context example_unclosed_channel 30 (Some [0xab]))) 6 7 =
     Some example_unclosed_channel
   \<and> update_status example_unclosed_channel = Some \<lparr>update_sender_address = 11, nonce = 5\<rparr>
   \<and> address (ms_state (example_context example_unclosed_channel 30 (Some [0xab]))) = 99
   \<and> raised (monitor_new_balance_proof_event_handler
        (ReceiveMonitoringNewBalanceProofEvent 6 7 10 6 99 11 160)
        (example_context example_unclosed_channel 30 (Some [0xab]))) = Some AssertionError
   \<and> scheduled_events (db (final_context (monitor_new_balance_proof_event_handler
        (ReceiveMonitoringNewBalanceProofEvent 6 7 10 6 99 11 160)
        (example_context example_unclosed_channel 30 (Some [0xab]))))) = []"
proof -
  have nonce_ok: "case update_status example_unclosed_channel of
      None \<Rightarrow> True | Some s \<Rightarrow> nonce s \<le> 6"
    by (simp add: example_channel_fields)
  have "scheduled_events (db (example_context example_unclosed_channel 30 (Some [0xab]))) = []"
    by (simp add: example_db)
  then show ?thesis
    by (simp add: new_balance_proof_update [OF example_channels'(2) nonce_ok] Let_def
        example_channels' example_channel_fields example_lookup)
qed

section \<open>Events that do not fit the stored state\<close>

lemma round_ratio_error:
  "round_ratio_of_settle_timeout n = Inl e \<Longrightarrow> e = OverflowError"
  by (auto simp: round_ratio_of_settle_timeout_def py_int_mul_float_def py_round_def
      split: option.splits if_splits)

lemma closed_never_asserts:
  "raised (channel_closed_event_handler (ReceiveChannelClosedEvent tn cid closing bn) context)
     \<noteq> Some AssertionError"
proof (cases "get_channel (db context) tn cid")
  case None
  then show ?thesis by (simp add: closed_absent)
next
  case (Some c)
  show ?thesis
  proof (cases "round_ratio_of_settle_timeout (settle_timeout c)")
    case (Inl e)
    with round_ratio_error [OF Inl] show ?thesis
      by (simp add: closed_present [OF Some] Let_def)
  next
    case (Inr p)
    then show ?thesis
      by (simp add: closed_present [OF Some] Let_def)
  qed
qed

lemma non_closing_stale_outcome:
  "get_channel (db context) tn cid = Some c \<Longrightarrow> update_status c = Some s \<Longrightarrow>
   n \<le> nonce s \<Longrightarrow> closing = participant1 c \<or> closing = participant2 c \<Longrightarrow>
   non_closing_balance_proof_updated_event_handler
     (ReceiveNonClosingBalanceProofUpdatedEvent tn cid closing n bn) context =
   Returned
     (log_line ERROR
        ''updateNonClosingBalanceProof nonce smaller than the known one, ignoring.''
        (log_line INFO ''Received update event for channel'' context))"
  by (auto simp: non_closing_balance_proof_updated_event_handler.simps Let_def)

lemma non_closing_returns:
  "raised (non_closing_balance_proof_updated_event_handler
     (ReceiveNonClosingBalanceProofUpdatedEvent tn cid closing n bn) context) = None"
  by (simp add: non_closing_balance_proof_updated_event_handler.simps Let_def
      split: option.split)

lemma settled_returns:
  "raised (channel_settled_event_handler (ReceiveChannelSettledEvent tn cid bn) context) = None"
  by (simp add: channel_settled_event_handler.simps Let_def split: option.split)

lemma monitoring_returns:
  "raised (action_monitoring_triggered_event_handler
     (ActionMonitoringTriggeredEvent tn cid np) context) = None"
  by (simp add: action_monitoring_triggered_event_handler.simps Let_def case_prod_beta
      split: option.split)

lemma claim_returns:
  "raised (action_claim_reward_triggered_event_handler
     (ActionClaimRewardTriggeredEvent tn cid np) context) = None"
  by (simp add: action_claim_reward_triggered_event_handler.simps Let_def
      split: option.split)

lemma new_balance_proof_asserts:
  "raised (monitor_new_balance_proof_event_handler
     (ReceiveMonitoringNewBalanceProofEvent tn cid reward n ms node bn) context) =
     Some AssertionError \<longleftrightarrow>
   missing_closing_block (ReceiveMonitoringNewBalanceProofEvent tn cid reward n ms node bn)
     context"
proof (cases "get_channel (db context) tn cid")
  case None
  then show ?thesis by (simp add: new_balance_proof_absent)
next
  case (Some c)
  show ?thesis
  proof (cases "case update_status c of None \<Rightarrow> True | Some s \<Rightarrow> nonce s \<le> n")
    case True
    show ?thesis
      using Some True
      by (simp add: new_balance_proof_update [OF Some True] Let_def split: option.split)
  next
    case False
    then obtain s where s: "update_status c = Some s" "n < nonce s"
      by (auto split: option.splits)
    show ?thesis
      using Some s by (simp add: new_balance_proof_stale [OF Some s])
  qed
qed

text \<open>
  Claim C10, as amended. The handler of an event raises \<open>AssertionError\<close> exactly when the
  event is a \<open>MonitorNewBalanceProof\<close> event that carries the service's own address, whose
  channel is stored without a closing block, and that passes the nonce check (no update
  status, or a nonce not below the stored one). The other events that do not fit the
  stored state are logged and the handler returns without raising: a \<open>ChannelClosed\<close>,
  \<open>NonClosingBalanceProofUpdated\<close>, \<open>ChannelSettled\<close> or \<open>MonitorNewBalanceProof\<close> event whose
  channel is not stored; a \<open>NonClosingBalanceProofUpdated\<close> event whose closing
  participant is not a participant of the channel, or whose nonce is not above the stored
  one; a \<open>MonitorNewBalanceProof\<close> event whose nonce is below the stored one; and a
  \<open>MONITOR\<close> or \<open>CLAIM_REWARD\<close> action whose monitor request or channel is not stored. In
  each of these cases the context returned is the one given with the lines logged.
\<close>

theorem missing_closing_block_asserts:
  "(raised (handle_event e context) = Some AssertionError \<longleftrightarrow>
      missing_closing_block e context)
   \<and> (get_channel (db context) tn cid = None \<longrightarrow>
        handle_event (ReceiveChannelClosedEvent tn cid closing bn) context =
          Returned (log_line ERROR ''Channel not in database'' context)
        \<and> handle_event (ReceiveNonClosingBalanceProofUpdatedEvent tn cid closing n bn) context =
          Returned (log_line ERROR ''Channel not in database'' context)
        \<and> handle_event (ReceiveChannelSettledEvent tn cid bn) context =
          Returned (log_line ERROR ''Channel not in database'' context)
        \<and> handle_event (ReceiveMonitoringNewBalanceProofEvent tn cid reward n ms node bn)
            context =
          Returned (log_line ERROR ''Channel not in database'' context))
   \<and> (get_channel (db context) tn cid = Some c \<longrightarrow>
        closing \<noteq> participant1 c \<longrightarrow> closing \<noteq> participant2 c \<longrightarrow>
        handle_event (ReceiveNonClosingBalanceProofUpdatedEvent tn cid closing n bn) context =
        Returned
          (log_line ERROR ''Update event contains invalid closing participant''
             (log_line INFO ''Received update event for channel'' context)))
   \<and> (get_channel (db context) tn cid = Some c \<longrightarrow> update_status c = Some s \<longrightarrow>
        n \<le> nonce s \<longrightarrow> closing = participant1 c \<or> closing = participant2 c \<longrightarrow>
        handle_event (ReceiveNonClosingBalanceProofUpdatedEvent tn cid closing n bn) context =
        Returned
          (log_line ERROR
             ''updateNonClosingBalanceProof nonce smaller than the known one, ignoring.''
             (log_line INFO ''Received update event for channel'' context)))
   \<and> (get_channel (db context) tn cid = Some c \<longrightarrow> update_status c = Some s \<longrightarrow>
        n < nonce s \<longrightarrow>
        handle_event (ReceiveMonitoringNewBalanceProofEvent tn cid reward n ms node bn)
          context =
        Returned
          (log_line ERROR ''MSC NewBalanceProof nonce smaller than the known one, ignoring.''
             (log_line INFO ''Received MSC NewBalanceProof event'' context)))
   \<and> ((case get_monitor_request (db context) tn cid np of
          None \<Rightarrow> True
        | Some mr \<Rightarrow>
            get_channel (db context) (mr_token_network_address mr)
              (mr_channel_identifier mr) = None) \<longrightarrow>
        handle_event (ActionMonitoringTriggeredEvent tn cid np) context =
          Returned (log_line INFO ''Triggering channel monitoring'' context)
        \<and> handle_event (ActionClaimRewardTriggeredEvent tn cid np) context =
          Returned (log_line INFO ''Triggering reward claim'' context))"
proof -
  have "raised (handle_event e context) = Some AssertionError \<longleftrightarrow>
      missing_closing_block e context"
  proof (cases e)
    case (ReceiveChannelOpenedEvent tn cid p1 p2 st bn)
    then show ?thesis by (simp add: handle_event_def Let_def)
  next
    case (ReceiveChannelClosedEvent tn cid closing bn)
    then show ?thesis by (simp add: handle_event_def closed_never_asserts)
  next
    case (ReceiveNonClosingBalanceProofUpdatedEvent tn cid closing n bn)
    then show ?thesis by (simp add: handle_event_def non_closing_returns)
  next
    case (ReceiveChannelSettledEvent tn cid bn)
    then show ?thesis by (simp add: handle_event_def settled_returns)
  next
    case (ReceiveMonitoringNewBalanceProofEvent tn cid reward n ms node bn)
    then show ?thesis
      by (simp only: handle_event_def HANDLERS.simps new_balance_proof_asserts)
  next
    case (ReceiveMonitoringRewardClaimedEvent ms amount rid bn)
    then show ?thesis by (simp add: handle_event_def)
  next
    case (UpdatedHeadBlockEvent h)
    then show ?thesis by (simp add: handle_event_def Let_def)
  next
    case (ActionMonitoringTriggeredEvent tn cid np)
    then show ?thesis by (simp add: handle_event_def monitoring_returns)
  next
    case (ActionClaimRewardTriggeredEvent tn cid np)
    then show ?thesis by (simp add: handle_event_def claim_returns)
  qed
  moreover have "handle_event (ActionMonitoringTriggeredEvent tn cid np) context =
          Returned (log_line INFO ''Triggering channel monitoring'' context)
        \<and> handle_event (ActionClaimRewardTriggeredEvent tn cid np) context =
          Returned (log_line INFO ''Triggering reward claim'' context)"
    if "case get_monitor_request (db context) tn cid np of
          None \<Rightarrow> True
        | Some mr \<Rightarrow>
            get_channel (db context) (mr_token_network_address mr)
              (mr_channel_identifier mr) = None"
    using that
    by (cases "get_monitor_request (db context) tn cid np")
      (simp_all add: handle_event_def monitoring_no_request monitoring_no_channel
        claim_no_request claim_no_channel)
  ultimately show ?thesis
    by (simp add: handle_event_def closed_absent non_closing_absent settled_absent
        new_balance_proof_absent non_closing_invalid new_balance_proof_stale
        non_closing_stale_outcome)
qed

theorem missing_closing_block_asserts_witness:
  "raised (handle_event (ReceiveMonitoringNewBalanceProofEvent 6 7 10 6 99 11 160)
      (example_context example_unclosed_channel 30 (Some [0xab]))) = Some AssertionError
   \<and> raised (handle_event (ReceiveChannelSettledEvent 6 7 160)
      (example_context example_unclosed_channel 30 (Some [0xab]))) \<noteq> Some AssertionError
   \<and> handle_event (ReceiveChannelSettledEvent 6 8 160)
      (example_context example_unclosed_channel 30 (Some [0xab])) =
     Returned (log_line ERROR ''Channel not in database''
       (example_context example_unclosed_channel 30 (Some [0xab])))
   \<and> raised (handle_event (ReceiveNonClosingBalanceProofUpdatedEvent 6 7 12 6 160)
      (example_context example_unclosed_channel 30 (Some [0xab]))) = None
   \<and> log_output (final_context (handle_event
      (ReceiveNonClosingBalanceProofUpdatedEvent 6 7 12 6 160)
      (example_context example_unclosed_channel 30 (Some [0xab])))) =
     [(INFO, ''Received update event for channel''),
      (ERROR, ''Update event contains invalid closing participant'')]
   \<and> raised (handle_event (ReceiveNonClosingBalanceProofUpdatedEvent 6 7 10 5 160)
      (example_context example_unclosed_channel 30 (Some [0xab]))) = None
   \<and> log_output (final_context (handle_event
      (ReceiveNonClosingBalanceProofUpdatedEvent 6 7 10 5 160)
      (example_context example_unclosed_channel 30 (Some [0xab])))) =
     [(INFO, ''Received update event for channel''),
      (ERROR, ''updateNonClosingBalanceProof nonce smaller than the known one, ignoring.'')]
   \<and> raised (handle_event (ReceiveMonitoringNewBalanceProofEvent 6 7 10 4 98 11 160)
      (example_context example_unclosed_channel 30 (Some [0xab]))) = None
   \<and> log_output (final_context (handle_event
      (ReceiveMonitoringNewBalanceProofEvent 6 7 10 4 98 11 160)
      (example_context example_unclosed_channel 30 (Some [0xab])))) =
     [(INFO, ''Received MSC NewBalanceProof event''),
      (ERROR, ''MSC NewBalanceProof nonce smaller than the known one, ignoring.'')]
   \<and> handle_event (ActionMonitoringTriggeredEvent 6 7 12)
      (example_context example_unclosed_channel 30 (Some [0xab])) =
     Returned (log_line INFO ''Triggering channel monitoring''
       (example_context example_unclosed_channel 30 (Some [0xab])))
   \<and> handle_event (ActionClaimRewardTriggeredEvent 6 7 12)
      (example_context example_unclosed_channel 30 (Some [0xab])) =
     Returned (log_line INFO ''Triggering reward claim''
       (example_context example_unclosed_channel 30 (Some [0xab])))"
proof -
  have absent: "get_channel (db (example_context example_unclosed_channel 30 (Some [0xab])))
      6 8 = None"
    by (simp add: example_db get_channel_def is_channel_def example_unclosed_channel_def
        example_channel_def new_Channel_def)
  have parts: "12 \<noteq> participant1 example_unclosed_channel"
    "12 \<noteq> participant2 example_unclosed_channel"
    "participant1 example_unclosed_channel = 10"
    by (simp_all add: example_unclosed_channel_def example_channel_def new_Channel_def)
  have no_request: "get_monitor_request
      (db (example_context example_unclosed_channel 30 (Some [0xab]))) 6 7 12 = None"
    by (simp add: example_db get_monitor_request_def example_request_def)
  have no_log: "log_output (example_context example_unclosed_channel 30 (Some [0xab])) = []"
    by (simp add: example_context_def)
  note ch = example_channels'(2) [of 30 "Some [0xab]"]
  show ?thesis
    using missing_closing_block_asserts
        [where e = "ReceiveMonitoringNewBalanceProofEvent 6 7 10 6 99 11 160"
          and tn = 6 and cid = 8 and bn = 160,
          of "example_context example_unclosed_channel 30 (Some [0xab])"]
      missing_closing_block_asserts
        [where e = "ReceiveChannelSettledEvent 6 7 160"
          and tn = 6 and cid = 7 and c = example_unclosed_channel and n = 6 and closing = 12
          and s = "\<lparr>update_sender_address = 11, nonce = 5\<rparr>" and bn = 160 and np = 12,
          of "example_context example_unclosed_channel 30 (Some [0xab])"]
      missing_closing_block_asserts
        [where tn = 6 and cid = 7 and c = example_unclosed_channel and n = 5 and closing = 10
          and s = "\<lparr>update_sender_address = 11, nonce = 5\<rparr>" and bn = 160,
          of _ "example_context example_unclosed_channel 30 (Some [0xab])"]
      missing_closing_block_asserts
        [where tn = 6 and cid = 7 and c = example_unclosed_channel and n = 4
          and s = "\<lparr>update_sender_address = 11, nonce = 5\<rparr>" and reward = 10 and ms = 98
          and node = 11 and bn = 160,
          of _ "example_context example_unclosed_channel 30 (Some [0xab])"]
    by (simp add: ch absent parts no_request no_log example_channel_fields example_lookup)
qed

text \<open>
  Claim C10 as stated fails: the event carries the service's own address and the stored
  channel has no closing block, but its nonce \<open>3\<close> is below the stored nonce \<open>5\<close>, so the
  handler drops it and returns.
\<close>

theorem stale_own_update_counterexample:
  "get_channel (db (example_context example_unclosed_channel 30 (Some [0xab]))) 6 7 =
     Some example_unclosed_channel
   \<and> closing_block example_unclosed_channel = None
   \<and> address (ms_state (example_context example_unclosed_channel 30 (Some [0xab]))) = 99
   \<and> raised (monitor_new_balance_proof_event_handler
        (ReceiveMonitoringNewBalanceProofEvent 6 7 10 3 99 11 160)
        (example_context example_unclosed_channel 30 (Some [0xab]))) = None"
  by (simp add: example_channels' example_channel_fields example_lookup
      new_balance_proof_stale [OF example_channels'(2) example_channel_fields(9)])

section \<open>The persisted block number\<close>

lemma add_waiting_transaction_fields [simp]:
  "channels (add_waiting_transaction h d) = channels d"
  "monitor_requests (add_waiting_transaction h d) = monitor_requests d"
  "scheduled_events (add_waiting_transaction h d) = scheduled_events d"
  "stored_blockchain_state (add_waiting_transaction h d) = stored_blockchain_state d"
  by (simp_all add: add_waiting_transaction_def)

lemma get_channel_add_waiting_transaction [simp]:
  "get_channel (add_waiting_transaction h d) tn cid = get_channel d tn cid"
  by (simp add: get_channel_def)

lemma process_events_append:
  "process_events (es1 @ es2) ctx =
     and_then (process_events es1 ctx) (process_events es2)"
proof (induction es1 arbitrary: ctx)
  case Nil
  show ?case by simp
next
  case (Cons e es1)
  show ?case
    by (cases "handle_event e ctx") (simp_all add: Cons.IH)
qed

lemma handlers_keep_blockchain_state:
  "stored_blockchain_state (db (final_context (channel_opened_event_handler
      (ReceiveChannelOpenedEvent tn cid p1 p2 st bn) context))) =
   stored_blockchain_state (db context)"
  "stored_blockchain_state (db (final_context (channel_closed_event_handler
      (ReceiveChannelClosedEvent tn cid closing bn) context))) =
   stored_blockchain_state (db context)"
  "stored_blockchain_state (db (final_context (non_closing_balance_proof_updated_event_handler
      (ReceiveNonClosingBalanceProofUpdatedEvent tn cid closing n bn) context))) =
   stored_blockchain_state (db context)"
  "stored_blockchain_state (db (final_context (channel_settled_event_handler
      (ReceiveChannelSettledEvent tn cid bn) context))) =
   stored_blockchain_state (db context)"
  "stored_blockchain_state (db (final_context (monitor_new_balance_proof_event_handler
      (ReceiveMonitoringNewBalanceProofEvent tn cid reward n ms node bn) context))) =
   stored_blockchain_state (db context)"
  "stored_blockchain_state (db (final_context (monitor_reward_claim_event_handler
      (ReceiveMonitoringRewardClaimedEvent ms amount rid bn) context))) =
   stored_blockchain_state (db context)"
  "stored_blockchain_state (db (final_context (action_monitoring_triggered_event_handler
      (ActionMonitoringTriggeredEvent tn cid np) context))) =
   stored_blockchain_state (db context)"
  "stored_blockchain_state (db (final_context (action_claim_reward_triggered_event_handler
      (ActionClaimRewardTriggeredEvent tn cid np) context))) =
   stored_blockchain_state (db context)"
  by (simp_all add: channel_closed_event_handler.simps
      non_closing_balance_proof_updated_event_handler.simps
      channel_settled_event_handler.simps monitor_new_balance_proof_event_handler.simps
      action_monitoring_triggered_event_handler.simps
      action_claim_reward_triggered_event_handler.simps
      Let_def case_prod_beta split: option.split sum.split)

lemma head_block_stored:
  "stored_blockchain_state (db (final_context (updated_head_block_event_handler
      (UpdatedHeadBlockEvent h) context))) =
   (blockchain_state (ms_state context))\<lparr>latest_known_block := h\<rparr>"
  by (simp add: Let_def update_state_def)

lemma persisted_step:
  "persisted_latest_known_block (final_context (handle_event e context)) =
     (case e of UpdatedHeadBlockEvent h \<Rightarrow> h | _ \<Rightarrow> persisted_latest_known_block context)"
  by (cases e;
      simp only: handle_event_def HANDLERS.simps persisted_latest_known_block_def
        handlers_keep_blockchain_state head_block_stored Event.case;
      simp)

lemma persisted_ascending:
  "heads_ascending (persisted_latest_known_block ctx) es \<Longrightarrow>
   persisted_latest_known_block ctx \<le>
     persisted_latest_known_block (final_context (process_events es ctx))"
proof (induction es arbitrary: ctx)
  case Nil
  show ?case by simp
next
  case (Cons e es)
  show ?case
  proof (cases "handle_event e ctx")
    case (Raised err ctx')
    have "persisted_latest_known_block ctx \<le> persisted_latest_known_block ctx'"
      using persisted_step [of e ctx] Cons.prems Raised by (cases e) simp_all
    with Raised show ?thesis by simp
  next
    case (Returned ctx')
    have "persisted_latest_known_block ctx \<le> persisted_latest_known_block ctx'
        \<and> heads_ascending (persisted_latest_known_block ctx') es"
      using persisted_step [of e ctx] Cons.prems Returned by (cases e) simp_all
    with Cons.IH [of ctx'] Returned show ?thesis by simp
  qed
qed

lemma persisted_prefix:
  "heads_ascending (persisted_latest_known_block ctx) (es1 @ es2) \<Longrightarrow>
   persisted_latest_known_block (final_context (process_events es1 ctx)) \<le>
     persisted_latest_known_block (final_context (process_events (es1 @ es2) ctx))"
proof (induction es1 arbitrary: ctx)
  case Nil
  then show ?case
    using persisted_ascending [of ctx es2] by simp
next
  case (Cons e es1)
  show ?case
  proof (cases "handle_event e ctx")
    case (Raised err ctx')
    then show ?thesis by simp
  next
    case (Returned ctx')
    have "heads_ascending (persisted_latest_known_block ctx') (es1 @ es2)"
      using persisted_step [of e ctx] Cons.prems Returned by (cases e) simp_all
    with Cons.IH [of ctx'] Returned show ?thesis by simp
  qed
qed

text \<open>
  Claim C9, as amended. The handler of \<open>UpdatedHeadBlock\<close> stores the event's head block
  number as \<open>latest_known_block\<close> of the persisted blockchain state, whatever the number
  stored before, and no other handler changes it. Hence, in a sequence of events whose
  head block numbers never go down, starting from the persisted block number, the
  persisted \<open>latest_known_block\<close> after any part of the sequence is at most the one after a
  longer part.
\<close>

theorem latest_known_block_never_regresses:
  "persisted_latest_known_block (final_context (handle_event e context)) =
     (case e of
        UpdatedHeadBlockEvent h \<Rightarrow> h
      | _ \<Rightarrow> persisted_latest_known_block context)
   \<and> (heads_ascending (persisted_latest_known_block context) (es1 @ es2) \<longrightarrow>
        persisted_latest_known_block (final_context (process_events es1 context)) \<le>
        persisted_latest_known_block (final_context (process_events (es1 @ es2) context)))"
  using persisted_step [of e "context"] persisted_prefix [of "context" es1 es2]
  by simp

theorem latest_known_block_never_regresses_witness:
  "persisted_latest_known_block (final_context (handle_event (UpdatedHeadBlockEvent 120)
      (example_context example_channel 30 (Some [0xab])))) = 120
   \<and> persisted_latest_known_block (final_context (handle_event
      (ReceiveChannelClosedEvent 6 7 10 150)
      (example_context example_channel 30 (Some [0xab])))) = 100
   \<and> persisted_latest_known_block (final_context (process_events
        [UpdatedHeadBlockEvent 120, ReceiveChannelClosedEvent 6 7 10 150]
        (example_context example_channel 30 (Some [0xab])))) \<le>
      persisted_latest_known_block (final_context (process_events
        ([UpdatedHeadBlockEvent 120, ReceiveChannelClosedEvent 6 7 10 150]
           @ [UpdatedHeadBlockEvent 130, ActionMonitoringTriggeredEvent 6 7 11])
        (example_context example_channel 30 (Some [0xab]))))"
proof -
  have start: "persisted_latest_known_block (example_context example_channel 30 (Some [0xab]))
      = 100"
    by (simp add: persisted_latest_known_block_def example_db example_blockchain_state_def)
  show ?thesis
    using latest_known_block_never_regresses
        [of "UpdatedHeadBlockEvent 120" "example_context example_channel 30 (Some [0xab])"
          "[UpdatedHeadBlockEvent 120, ReceiveChannelClosedEvent 6 7 10 150]"
          "[UpdatedHeadBlockEvent 130, ActionMonitoringTriggeredEvent 6 7 11]"]
      latest_known_block_never_regresses
        [of "ReceiveChannelClosedEvent 6 7 10 150"
          "example_context example_channel 30 (Some [0xab])" "[]" "[]"]
    by (simp add: start)
qed

text \<open>
  Claim C9 as stated fails: the persisted \<open>latest_known_block\<close> is \<open>100\<close>, and processing an
  \<open>UpdatedHeadBlock\<close> event with head block \<open>5\<close> replaces it with \<open>5\<close>.
\<close>

theorem head_block_regresses_counterexample:
  "persisted_latest_known_block (example_context example_channel 30 (Some [0xab])) = 100
   \<and> persisted_latest_known_block (final_context (process_events [UpdatedHeadBlockEvent 5]
        (example_context example_channel 30 (Some [0xab])))) = 5"
  by code_simp

section \<open>The stored channels along a sequence of events\<close>

lemma monitoring_db_cases:
  assumes "get_monitor_request (db context) tn cid np = Some mr"
    and "get_channel (db context) (mr_token_network_address mr) (mr_channel_identifier mr) =
      Some c"
    and "P (db context)"
    and "\<And>h. P (upsert_channel (c\<lparr>closing_tx_hash := Some h\<rparr>)
            (add_waiting_transaction (encode_hex h) (db context)))"
  shows "P (db (final_context (action_monitoring_triggered_event_handler
        (ActionMonitoringTriggeredEvent tn cid np) context)))"
  using assms
  by (simp add: action_monitoring_triggered_event_handler.simps Let_def case_prod_beta
      split: option.split)

lemma claim_db_cases:
  assumes "get_monitor_request (db context) tn cid np = Some mr"
    and "get_channel (db context) (mr_token_network_address mr) (mr_channel_identifier mr) =
      Some c"
    and "P (db context)"
    and "\<And>h. P (upsert_channel (c\<lparr>claim_tx_hash := Some h\<rparr>)
            (add_waiting_transaction (encode_hex h) (db context)))"
  shows "P (db (final_context (action_claim_reward_triggered_event_handler
        (ActionClaimRewardTriggeredEvent tn cid np) context)))"
  using assms
  by (simp add: action_claim_reward_triggered_event_handler.simps Let_def
      split: option.split)

lemma not_decreased_refl [simp]: "not_decreased x x"
  by (cases x) simp_all

lemma not_decreased_trans:
  "not_decreased x y \<Longrightarrow> not_decreased y z \<Longrightarrow> not_decreased x z"
  by (cases x; cases y; cases z) simp_all

lemma stored_nonce_unchanged [simp]:
  "stored_nonce (upsert_scheduled_event se d) tn cid = stored_nonce d tn cid"
  "stored_nonce (add_waiting_transaction h d) tn cid = stored_nonce d tn cid"
  by (simp_all add: stored_nonce_def)

lemma stored_nonce_upsert:
  assumes "get_channel d tn' cid' = Some c"
    and "token_network_address c' = token_network_address c"
    and "identifier' c' = identifier' c"
    and "not_decreased (map_option nonce (update_status c))
           (map_option nonce (update_status c'))"
  shows "not_decreased (stored_nonce d tn cid) (stored_nonce (upsert_channel c' d) tn cid)"
  using assms get_channel_key [OF assms(1)]
  by (auto simp: stored_nonce_def get_channel_upsert_channel)

lemma nonce_step:
  assumes "\<not> opens tn cid e"
  shows "not_decreased (stored_nonce (db ctx) tn cid)
    (stored_nonce (db (final_context (handle_event e ctx))) tn cid)"
proof (cases e)
  case (ReceiveChannelOpenedEvent tn' cid' p1 p2 st bn)
  with assms show ?thesis
    by (auto simp: handle_event_def Let_def stored_nonce_def get_channel_upsert_channel
        new_Channel_def)
next
  case e: (ReceiveChannelClosedEvent tn' cid' closing bn)
  show ?thesis
  proof (cases "get_channel (db ctx) tn' cid'")
    case None
    then show ?thesis by (simp add: e handle_event_def closed_absent)
  next
    case (Some c)
    have "not_decreased (stored_nonce d tn cid)
        (stored_nonce (upsert_channel (c\<lparr>state := CLOSED, closing_block := Some bn,
           closing_participant := Some closing\<rparr>) d) tn cid)"
      if "get_channel d tn' cid' = Some c" for d
      using that by (rule stored_nonce_upsert) simp_all
    from this [of "db ctx"] this [of "upsert_scheduled_event se (db ctx)" for se]
    show ?thesis
      by (simp add: e handle_event_def closed_present [OF Some] Let_def Some
          split: sum.split)
  qed
next
  case e: (ReceiveNonClosingBalanceProofUpdatedEvent tn' cid' closing n bn)
  show ?thesis
  proof (cases "get_channel (db ctx) tn' cid'")
    case None
    then show ?thesis by (simp add: e handle_event_def non_closing_absent)
  next
    case (Some c)
    show ?thesis
    proof (cases "(closing = participant1 c \<or> closing = participant2 c)
        \<and> (case update_status c of None \<Rightarrow> True | Some s \<Rightarrow> nonce s < n)")
      case True
      have "not_decreased (stored_nonce (db ctx) tn cid)
        (stored_nonce (upsert_channel (c\<lparr>update_status :=
              Some \<lparr>update_sender_address =
                      (if closing = participant1 c then participant2 c else participant1 c),
                    nonce = n\<rparr>\<rparr>) (db ctx)) tn cid)"
        using Some
      proof (rule stored_nonce_upsert)
        show "not_decreased (map_option nonce (update_status c))
           (map_option nonce (update_status (c\<lparr>update_status :=
              Some \<lparr>update_sender_address =
                      (if closing = participant1 c then participant2 c else participant1 c),
                    nonce = n\<rparr>\<rparr>)))"
          using True by (cases "update_status c") simp_all
      qed simp_all
      with True show ?thesis
        by (simp add: e handle_event_def non_closing_update [OF Some])
    next
      case False
      have "db (final_context (non_closing_balance_proof_updated_event_handler
          (ReceiveNonClosingBalanceProofUpdatedEvent tn' cid' closing n bn) ctx)) = db ctx"
      proof (cases "closing = participant1 c \<or> closing = participant2 c")
        case True
        with False obtain s where "update_status c = Some s" "n \<le> nonce s"
          by (cases "update_status c") auto
        then show ?thesis
          using non_closing_stale [OF Some] by blast
      next
        case False
        then show ?thesis by (simp add: non_closing_invalid [OF Some])
      qed
      then show ?thesis by (simp add: e handle_event_def)
    qed
  qed
next
  case e: (ReceiveChannelSettledEvent tn' cid' bn)
  show ?thesis
  proof (cases "get_channel (db ctx) tn' cid'")
    case None
    then show ?thesis by (simp add: e handle_event_def settled_absent)
  next
    case (Some c)
    have "not_decreased (stored_nonce (db ctx) tn cid)
        (stored_nonce (upsert_channel (c\<lparr>state := SETTLED\<rparr>) (db ctx)) tn cid)"
      using Some by (rule stored_nonce_upsert) simp_all
    then show ?thesis
      by (simp add: e handle_event_def settled_present [OF Some])
  qed
next
  case e: (ReceiveMonitoringNewBalanceProofEvent tn' cid' reward n ms node bn)
  show ?thesis
  proof (cases "get_channel (db ctx) tn' cid'")
    case None
    then show ?thesis by (simp add: e handle_event_def new_balance_proof_absent)
  next
    case (Some c)
    show ?thesis
    proof (cases "case update_status c of None \<Rightarrow> True | Some s \<Rightarrow> nonce s \<le> n")
      case True
      have "not_decreased (stored_nonce (db ctx) tn cid)
        (stored_nonce (upsert_channel
           (c\<lparr>update_status := Some \<lparr>update_sender_address = ms, nonce = n\<rparr>\<rparr>) (db ctx))
           tn cid)"
        using Some
      proof (rule stored_nonce_upsert)
        show "not_decreased (map_option nonce (update_status c))
           (map_option nonce (update_status
              (c\<lparr>update_status := Some \<lparr>update_sender_address = ms, nonce = n\<rparr>\<rparr>)))"
          using True by (cases "update_status c") simp_all
      qed simp_all
      then show ?thesis
        by (auto simp: e handle_event_def new_balance_proof_update [OF Some True] Let_def
            split: option.split)
    next
      case False
      then obtain s where "update_status c = Some s" "n < nonce s"
        by (cases "update_status c") auto
      then show ?thesis
        by (simp add: e handle_event_def new_balance_proof_stale [OF Some])
    qed
  qed
next
  case (ReceiveMonitoringRewardClaimedEvent ms amount rid bn)
  then show ?thesis by (simp add: handle_event_def)
next
  case (UpdatedHeadBlockEvent h)
  then show ?thesis
    by (simp add: handle_event_def Let_def update_state_def stored_nonce_def get_channel_def)
next
  case e: (ActionMonitoringTriggeredEvent tn' cid' np)
  show ?thesis
  proof (cases "get_monitor_request (db ctx) tn' cid' np")
    case None
    then show ?thesis by (simp add: e handle_event_def monitoring_no_request)
  next
    case mr: (Some mr)
    show ?thesis
    proof (cases "get_channel (db ctx) (mr_token_network_address mr)
        (mr_channel_identifier mr)")
      case None
      with mr show ?thesis by (simp add: e handle_event_def monitoring_no_channel)
    next
      case (Some c)
      have upd: "not_decreased (stored_nonce (db ctx) tn cid)
          (stored_nonce (upsert_channel (c\<lparr>closing_tx_hash := Some h\<rparr>)
             (add_waiting_transaction (encode_hex h) (db ctx))) tn cid)" for h
        using stored_nonce_upsert [where d = "add_waiting_transaction (encode_hex h) (db ctx)"
            and c = c and c' = "c\<lparr>closing_tx_hash := Some h\<rparr>" and tn = tn and cid = cid]
          Some
        by simp
      have "not_decreased (stored_nonce (db ctx) tn cid)
          (stored_nonce (db (final_context (action_monitoring_triggered_event_handler
             (ActionMonitoringTriggeredEvent tn' cid' np) ctx))) tn cid)"
        by (rule monitoring_db_cases [OF mr Some, where P = "\<lambda>d.
            not_decreased (stored_nonce (db ctx) tn cid) (stored_nonce d tn cid)"])
          (simp_all add: upd)
      then show ?thesis by (simp add: e handle_event_def)
    qed
  qed
next
  case e: (ActionClaimRewardTriggeredEvent tn' cid' np)
  show ?thesis
  proof (cases "get_monitor_request (db ctx) tn' cid' np")
    case None
    then show ?thesis by (simp add: e handle_event_def claim_no_request)
  next
    case mr: (Some mr)
    show ?thesis
    proof (cases "get_channel (db ctx) (mr_token_network_address mr)
        (mr_channel_identifier mr)")
      case None
      with mr show ?thesis by (simp add: e handle_event_def claim_no_channel)
    next
      case (Some c)
      have upd: "not_decreased (stored_nonce (db ctx) tn cid)
          (stored_nonce (upsert_channel (c\<lparr>claim_tx_hash := Some h\<rparr>)
             (add_waiting_transaction (encode_hex h) (db ctx))) tn cid)" for h
        using stored_nonce_upsert [where d = "add_waiting_transaction (encode_hex h) (db ctx)"
            and c = c and c' = "c\<lparr>claim_tx_hash := Some h\<rparr>" and tn = tn and cid = cid]
          Some
        by simp
      have "not_decreased (stored_nonce (db ctx) tn cid)
          (stored_nonce (db (final_context (action_claim_reward_triggered_event_handler
             (ActionClaimRewardTriggeredEvent tn' cid' np) ctx))) tn cid)"
        by (rule claim_db_cases [OF mr Some, where P = "\<lambda>d.
            not_decreased (stored_nonce (db ctx) tn cid) (stored_nonce d tn cid)"])
          (simp_all add: upd)
      then show ?thesis by (simp add: e handle_event_def)
    qed
  qed
qed

lemma nonce_sequence:
  "list_all (\<lambda>e. \<not> opens tn cid e) es \<Longrightarrow>
   not_decreased (stored_nonce (db ctx) tn cid)
     (stored_nonce (db (final_context (process_events es ctx))) tn cid)"
proof (induction es arbitrary: ctx)
  case Nil
  show ?case by simp
next
  case (Cons e es)
  from Cons.prems have step: "not_decreased (stored_nonce (db ctx) tn cid)
      (stored_nonce (db (final_context (handle_event e ctx))) tn cid)"
    by (intro nonce_step) simp
  show ?case
  proof (cases "handle_event e ctx")
    case (Raised err ctx')
    with step show ?thesis by simp
  next
    case (Returned ctx')
    from Cons.prems have "not_decreased (stored_nonce (db ctx') tn cid)
        (stored_nonce (db (final_context (process_events es ctx'))) tn cid)"
      by (intro Cons.IH) simp
    with step Returned show ?thesis
      by (simp add: not_decreased_trans [where y = "stored_nonce (db ctx') tn cid"])
  qed
qed

text \<open>
  Claim C3, as amended. The handler of an event that is not a \<open>ChannelOpened\<close> event for the
  channel \<open>(tn, cid)\<close> does not decrease the nonce stored for that channel: a stored update
  status stays, with a nonce that is the same or greater. Hence along a sequence of
  events, the nonce stored after some of them has not decreased after further events
  among which there is no \<open>ChannelOpened\<close> event for the channel.
\<close>

theorem update_nonce_never_decreases:
  "(\<not> opens tn cid e \<longrightarrow>
      not_decreased (stored_nonce (db context) tn cid)
        (stored_nonce (db (final_context (handle_event e context))) tn cid))
   \<and> (list_all (\<lambda>e. \<not> opens tn cid e) es2 \<longrightarrow>
        not_decreased (stored_nonce (db (final_context (process_events es1 context))) tn cid)
          (stored_nonce (db (final_context (process_events (es1 @ es2) context))) tn cid))"
proof -
  have "not_decreased (stored_nonce (db (final_context (process_events es1 context))) tn cid)
          (stored_nonce (db (final_context (process_events (es1 @ es2) context))) tn cid)"
    if "list_all (\<lambda>e. \<not> opens tn cid e) es2"
    using nonce_sequence [OF that]
    by (cases "process_events es1 context") (simp_all add: process_events_append)
  then show ?thesis
    using nonce_step [of tn cid e "context"] by blast
qed

theorem update_nonce_never_decreases_witness:
  "stored_nonce (db (example_context example_updated_channel 30 (Some [0xab]))) 6 7 = Some 5
   \<and> not_decreased
       (stored_nonce (db (example_context example_updated_channel 30 (Some [0xab]))) 6 7)
       (stored_nonce (db (final_context (handle_event
          (ReceiveNonClosingBalanceProofUpdatedEvent 6 7 10 3 170)
          (example_context example_updated_channel 30 (Some [0xab]))))) 6 7)
   \<and> not_decreased
       (stored_nonce (db (final_context (process_events
          [ReceiveNonClosingBalanceProofUpdatedEvent 6 7 10 6 160]
          (example_context example_updated_channel 30 (Some [0xab]))))) 6 7)
       (stored_nonce (db (final_context (process_events
          ([ReceiveNonClosingBalanceProofUpdatedEvent 6 7 10 6 160]
           @ [ReceiveNonClosingBalanceProofUpdatedEvent 6 7 10 3 170,
              ReceiveChannelOpenedEvent 6 8 10 11 20 175,
              ReceiveMonitoringNewBalanceProofEvent 6 7 10 8 98 11 180])
          (example_context example_updated_channel 30 (Some [0xab]))))) 6 7)"
proof -
  have start: "stored_nonce (db (example_context example_updated_channel 30 (Some [0xab])))
      6 7 = Some 5"
    by (simp add: stored_nonce_def example_channels' example_channel_fields)
  show ?thesis
    using update_nonce_never_decreases
        [of 6 7 "ReceiveNonClosingBalanceProofUpdatedEvent 6 7 10 3 170"
          "example_context example_updated_channel 30 (Some [0xab])"
          "[ReceiveNonClosingBalanceProofUpdatedEvent 6 7 10 3 170,
            ReceiveChannelOpenedEvent 6 8 10 11 20 175,
            ReceiveMonitoringNewBalanceProofEvent 6 7 10 8 98 11 180]"
          "[ReceiveNonClosingBalanceProofUpdatedEvent 6 7 10 6 160]"]
    by (simp add: start)
qed

text \<open>
  Claim C3 as stated fails: the channel is stored with nonce \<open>5\<close>; a \<open>ChannelOpened\<close> event
  for the same channel replaces it by a fresh channel without update status, and the
  update with nonce \<open>1\<close> that follows is stored.
\<close>

theorem reopened_channel_counterexample:
  "stored_nonce (db (example_context example_updated_channel 30 (Some [0xab]))) 6 7 = Some 5
   \<and> stored_nonce (db (final_context (handle_event (ReceiveChannelOpenedEvent 6 7 10 11 20 170)
        (example_context example_updated_channel 30 (Some [0xab]))))) 6 7 = None
   \<and> stored_nonce (db (final_context (process_events
        [ReceiveChannelOpenedEvent 6 7 10 11 20 170,
         ReceiveNonClosingBalanceProofUpdatedEvent 6 7 10 1 180]
        (example_context example_updated_channel 30 (Some [0xab]))))) 6 7 = Some 1"
  by code_simp

section \<open>The closing block and the state of a channel\<close>

lemma consistent_upsert:
  "list_all P (channels d) \<Longrightarrow> P c' \<Longrightarrow> list_all P (channels (upsert_channel c' d))"
  by (simp add: upsert_channel_def list_all_iff)

lemma get_channel_member:
  "get_channel d tn cid = Some c \<Longrightarrow> list_all P (channels d) \<Longrightarrow> P c"
  by (auto simp: get_channel_def find_Some_iff list_all_length)

lemma consistent_step:
  assumes inv: "list_all closing_block_consistent (channels (db ctx))"
    and ok: "settle_follows_close e ctx"
  shows "list_all closing_block_consistent (channels (db (final_context (handle_event e ctx))))"
proof (cases e)
  case (ReceiveChannelOpenedEvent tn cid p1 p2 st bn)
  have "closing_block_consistent (new_Channel tn cid p1 p2 st)"
    by (simp add: closing_block_consistent_def new_Channel_def)
  with inv ReceiveChannelOpenedEvent show ?thesis
    by (simp add: handle_event_def Let_def consistent_upsert)
next
  case e: (ReceiveChannelClosedEvent tn cid closing bn)
  show ?thesis
  proof (cases "get_channel (db ctx) tn cid")
    case None
    with inv show ?thesis by (simp add: e handle_event_def closed_absent)
  next
    case (Some c)
    have "closing_block_consistent (c\<lparr>state := CLOSED, closing_block := Some bn,
           closing_participant := Some closing\<rparr>)"
      by (simp add: closing_block_consistent_def)
    then have "list_all closing_block_consistent
        (channels (upsert_channel (c\<lparr>state := CLOSED, closing_block := Some bn,
           closing_participant := Some closing\<rparr>) d))"
      if "list_all closing_block_consistent (channels d)" for d
      using that by (intro consistent_upsert)
    from this [of "db ctx"] this [of "upsert_scheduled_event se (db ctx)" for se] inv
    show ?thesis
      by (simp add: e handle_event_def closed_present [OF Some] Let_def split: sum.split)
  qed
next
  case e: (ReceiveNonClosingBalanceProofUpdatedEvent tn cid closing n bn)
  show ?thesis
  proof (cases "get_channel (db ctx) tn cid")
    case None
    with inv show ?thesis by (simp add: e handle_event_def non_closing_absent)
  next
    case (Some c)
    have c: "closing_block_consistent c"
      using Some inv by (rule get_channel_member)
    show ?thesis
    proof (cases "(closing = participant1 c \<or> closing = participant2 c)
        \<and> (case update_status c of None \<Rightarrow> True | Some s \<Rightarrow> nonce s < n)")
      case True
      have "list_all closing_block_consistent
        (channels (upsert_channel (c\<lparr>update_status :=
              Some \<lparr>update_sender_address =
                      (if closing = participant1 c then participant2 c else participant1 c),
                    nonce = n\<rparr>\<rparr>) (db ctx)))"
        using inv c by (intro consistent_upsert) (simp_all add: closing_block_consistent_def)
      with True show ?thesis
        by (simp add: e handle_event_def non_closing_update [OF Some])
    next
      case False
      have "db (final_context (non_closing_balance_proof_updated_event_handler
          (ReceiveNonClosingBalanceProofUpdatedEvent tn cid closing n bn) ctx)) = db ctx"
      proof (cases "closing = participant1 c \<or> closing = participant2 c")
        case True
        with False obtain s where "update_status c = Some s" "n \<le> nonce s"
          by (cases "update_status c") auto
        then show ?thesis
          using non_closing_stale [OF Some] by blast
      next
        case False
        then show ?thesis by (simp add: non_closing_invalid [OF Some])
      qed
      with inv show ?thesis by (simp add: e handle_event_def)
    qed
  qed
next
  case e: (ReceiveChannelSettledEvent tn cid bn)
  show ?thesis
  proof (cases "get_channel (db ctx) tn cid")
    case None
    with inv show ?thesis by (simp add: e handle_event_def settled_absent)
  next
    case (Some c)
    have c: "closing_block_consistent c"
      using Some inv by (rule get_channel_member)
    have "state c \<noteq> OPENED"
      using ok Some by (simp add: e)
    with c have "closing_block_consistent (c\<lparr>state := SETTLED\<rparr>)"
      by (cases "state c") (simp_all add: closing_block_consistent_def)
    with inv have "list_all closing_block_consistent
        (channels (upsert_channel (c\<lparr>state := SETTLED\<rparr>) (db ctx)))"
      by (intro consistent_upsert)
    then show ?thesis
      by (simp add: e handle_event_def settled_present [OF Some])
  qed
next
  case e: (ReceiveMonitoringNewBalanceProofEvent tn cid reward n ms node bn)
  show ?thesis
  proof (cases "get_channel (db ctx) tn cid")
    case None
    with inv show ?thesis by (simp add: e handle_event_def new_balance_proof_absent)
  next
    case (Some c)
    have c: "closing_block_consistent c"
      using Some inv by (rule get_channel_member)
    show ?thesis
    proof (cases "case update_status c of None \<Rightarrow> True | Some s \<Rightarrow> nonce s \<le> n")
      case True
      have "list_all closing_block_consistent
        (channels (upsert_channel
           (c\<lparr>update_status := Some \<lparr>update_sender_address = a, nonce = n\<rparr>\<rparr>) (db ctx)))"
        for a
        using inv c by (intro consistent_upsert) (simp_all add: closing_block_consistent_def)
      then show ?thesis
        by (auto simp: e handle_event_def new_balance_proof_update [OF Some True] Let_def
            split: option.split)
    next
      case False
      then obtain s where "update_status c = Some s" "n < nonce s"
        by (cases "update_status c") auto
      with inv show ?thesis
        by (simp add: e handle_event_def new_balance_proof_stale [OF Some])
    qed
  qed
next
  case (ReceiveMonitoringRewardClaimedEvent ms amount rid bn)
  with inv show ?thesis by (simp add: handle_event_def)
next
  case (UpdatedHeadBlockEvent h)
  with inv show ?thesis
    by (simp add: handle_event_def Let_def update_state_def)
next
  case e: (ActionMonitoringTriggeredEvent tn cid np)
  show ?thesis
  proof (cases "get_monitor_request (db ctx) tn cid np")
    case None
    with inv show ?thesis by (simp add: e handle_event_def monitoring_no_request)
  next
    case mr: (Some mr)
    show ?thesis
    proof (cases "get_channel (db ctx) (mr_token_network_address mr)
        (mr_channel_identifier mr)")
      case None
      with mr inv show ?thesis by (simp add: e handle_event_def monitoring_no_channel)
    next
      case (Some c)
      have c: "closing_block_consistent c"
        using Some inv by (rule get_channel_member)
      have upd: "list_all closing_block_consistent
          (channels (upsert_channel (c\<lparr>closing_tx_hash := Some h\<rparr>)
             (add_waiting_transaction (encode_hex h) (db ctx))))" for h
        using inv c by (intro consistent_upsert) (simp_all add: closing_block_consistent_def)
      have "list_all closing_block_consistent
          (channels (db (final_context (action_monitoring_triggered_event_handler
             (ActionMonitoringTriggeredEvent tn cid np) ctx))))"
        by (rule monitoring_db_cases [OF mr Some, where P = "\<lambda>d.
            list_all closing_block_consistent (channels d)"])
          (simp_all add: upd inv)
      then show ?thesis by (simp add: e handle_event_def)
    qed
  qed
next
  case e: (ActionClaimRewardTriggeredEvent tn cid np)
  show ?thesis
  proof (cases "get_monitor_request (db ctx) tn cid np")
    case None
    with inv show ?thesis by (simp add: e handle_event_def claim_no_request)
  next
    case mr: (Some mr)
    show ?thesis
    proof (cases "get_channel (db ctx) (mr_token_network_address mr)
        (mr_channel_identifier mr)")
      case None
      with mr inv show ?thesis by (simp add: e handle_event_def claim_no_channel)
    next
      case (Some c)
      have c: "closing_block_consistent c"
        using Some inv by (rule get_channel_member)
      have upd: "list_all closing_block_consistent
          (channels (upsert_channel (c\<lparr>claim_tx_hash := Some h\<rparr>)
             (add_waiting_transaction (encode_hex h) (db ctx))))" for h
        using inv c by (intro consistent_upsert) (simp_all add: closing_block_consistent_def)
      have "list_all closing_block_consistent
          (channels (db (final_context (action_claim_reward_triggered_event_handler
             (ActionClaimRewardTriggeredEvent tn cid np) ctx))))"
        by (rule claim_db_cases [OF mr Some, where P = "\<lambda>d.
            list_all closing_block_consistent (channels d)"])
          (simp_all add: upd inv)
      then show ?thesis by (simp add: e handle_event_def)
    qed
  qed
qed

lemma consistent_sequence:
  "list_all closing_block_consistent (channels (db ctx)) \<Longrightarrow> settles_follow_closes es ctx \<Longrightarrow>
   list_all closing_block_consistent (channels (db (final_context (process_events es ctx))))"
proof (induction es arbitrary: ctx)
  case Nil
  then show ?case by simp
next
  case (Cons e es)
  from Cons.prems have step: "list_all closing_block_consistent
      (channels (db (final_context (handle_event e ctx))))"
    by (intro consistent_step) simp_all
  show ?case
  proof (cases "handle_event e ctx")
    case (Raised err ctx')
    with step show ?thesis by simp
  next
    case (Returned ctx')
    with step Cons.prems Cons.IH [of ctx'] show ?thesis by simp
  qed
qed

text \<open>
  Claim C8, as amended. Processing a sequence of events from the initial state, in which
  no channel is stored, leads to a state in which every stored channel has its closing
  block set if and only if its state is \<open>CLOSED\<close> or \<open>SETTLED\<close>, provided that no
  \<open>ChannelSettled\<close> event of the sequence is processed while its channel is stored in state
  \<open>OPENED\<close>. More generally every handler keeps this property of the stored channels, for
  an event that is not a \<open>ChannelSettled\<close> event for a channel stored in state \<open>OPENED\<close>.
\<close>

theorem closing_block_iff_closed_or_settled:
  "(channels (db context) = [] \<longrightarrow> settles_follow_closes es context \<longrightarrow>
      list_all closing_block_consistent
        (channels (db (final_context (process_events es context)))))
   \<and> (list_all closing_block_consistent (channels (db context)) \<longrightarrow>
        settle_follows_close e context \<longrightarrow>
        list_all closing_block_consistent
          (channels (db (final_context (handle_event e context)))))"
  using consistent_sequence [of "context" es] consistent_step [of "context" e]
  by simp

theorem closing_block_iff_closed_or_settled_witness:
  "list_all closing_block_consistent
     (channels (db (final_context (process_events
        [ReceiveChannelOpenedEvent 6 7 10 11 20 100, ReceiveChannelClosedEvent 6 7 10 150,
         ReceiveChannelSettledEvent 6 7 200]
        example_initial_context))))
   \<and> list_all closing_block_consistent
       (channels (db (final_context (handle_event (ReceiveChannelSettledEvent 6 7 200)
          (example_context example_closed_channel 30 (Some [0xab]))))))"
proof -
  have initial: "channels (db example_initial_context) = []"
    by (simp add: example_initial_context_def empty_Database_def)
  have order: "settles_follow_closes
      [ReceiveChannelOpenedEvent 6 7 10 11 20 100, ReceiveChannelClosedEvent 6 7 10 150,
       ReceiveChannelSettledEvent 6 7 200]
      example_initial_context"
    by code_simp
  have stored: "list_all closing_block_consistent
      (channels (db (example_context example_closed_channel 30 (Some [0xab]))))"
    by (simp add: example_db closing_block_consistent_def example_closed_channel_def)
  have closed: "settle_follows_close (ReceiveChannelSettledEvent 6 7 200)
      (example_context example_closed_channel 30 (Some [0xab]))"
    by (simp add: example_channels) (simp add: example_closed_channel_def)
  show ?thesis
    using closing_block_iff_closed_or_settled
        [of example_initial_context
          "[ReceiveChannelOpenedEvent 6 7 10 11 20 100, ReceiveChannelClosedEvent 6 7 10 150,
            ReceiveChannelSettledEvent 6 7 200]"
          "ReceiveChannelSettledEvent 6 7 200"]
      closing_block_iff_closed_or_settled
        [of "example_context example_closed_channel 30 (Some [0xab])" "[]"
          "ReceiveChannelSettledEvent 6 7 200"]
      initial order stored closed
    by simp
qed

text \<open>
  Claim C8 as stated fails: from the initial state, a \<open>ChannelOpened\<close> event followed by a
  \<open>ChannelSettled\<close> event for the same channel leaves the channel stored in state
  \<open>SETTLED\<close> without a closing block.
\<close>

theorem settled_without_close_counterexample:
  "channels (db example_initial_context) = []
   \<and> map (\<lambda>channel. (state channel, closing_block channel))
       (channels (db (final_context (process_events
          [ReceiveChannelOpenedEvent 6 7 10 11 20 100, ReceiveChannelSettledEvent 6 7 200]
          example_initial_context)))) = [(SETTLED, None)]
   \<and> \<not> list_all closing_block_consistent
       (channels (db (final_context (process_events
          [ReceiveChannelOpenedEvent 6 7 10 11 20 100, ReceiveChannelSettledEvent 6 7 200]
          example_initial_context))))"
  by code_simp

end
